theory Spec2Isabelle
  imports Complex_Main
begin

section \<open>Python strings\<close>

text \<open>
  A Python \<open>str\<close> is modelled as a \<open>string\<close>; a \<open>char\<close> stands for a code point
  below 256. In that range \<open>str.lower\<close> changes the letters A to Z and the upper case
  letters of Latin-1 (192 to 222, the multiplication sign 215 apart), and \<open>str.strip\<close>
  removes the white space characters of that range.
\<close>

definition lower_char :: "char \<Rightarrow> char" where
  "lower_char c =
     (let n = (of_char c :: nat)
      in if (65 \<le> n \<and> n \<le> 90) \<or> (192 \<le> n \<and> n \<le> 222 \<and> n \<noteq> 215)
         then char_of (n + 32) else c)"

definition lower :: "string \<Rightarrow> string" where
  "lower s = map lower_char s"

definition isspace :: "char \<Rightarrow> bool" where
  "isspace c =
     (let n = (of_char c :: nat)
      in (9 \<le> n \<and> n \<le> 13) \<or> (28 \<le> n \<and> n \<le> 32) \<or> n = 133 \<or> n = 160)"

text \<open>\<open>blank s\<close> is the test \<open>not s.strip()\<close>.\<close>

definition blank :: "string \<Rightarrow> bool" where
  "blank s = list_all isspace s"

section \<open>generate\_bark.py: stage directions\<close>

definition EMOTION_MAP :: "(string \<times> string) list" where
  "EMOTION_MAP =
     [(''laughs'', ''[laughter]''),
      (''laughter'', ''[laughter]''),
      (''pauses'', ''''),
      (''pause'', ''''),
      (''sighs'', ''[sighs]''),
      (''sigh'', ''[sighs]''),
      (''gasps'', ''[gasps]''),
      (''gasp'', ''[gasps]'')]"

text \<open>\<open>EMOTION_MAP.get(key, "")\<close>.\<close>

definition emotion_get :: "string \<Rightarrow> string" where
  "emotion_get k = (case map_of EMOTION_MAP k of None \<Rightarrow> [] | Some v \<Rightarrow> v)"

text \<open>
  \<open>process_text(text, direction=None)\<close>. A direction of \<open>None\<close> is the Python
  \<open>None\<close>; \<open>if direction:\<close> is false for \<open>None\<close> and for the empty string. The function
  returns a string and touches neither stdout nor stderr.
\<close>

definition process_text :: "string \<Rightarrow> string option \<Rightarrow> string" where
  "process_text txt direction =
     (case direction of
        None \<Rightarrow> txt
      | Some d \<Rightarrow>
          if d = [] then txt
          else let bark_token = emotion_get (lower d)
               in if bark_token \<noteq> [] then bark_token @ '' '' @ txt else txt)"

section \<open>Numbers, arrays and files\<close>

text \<open>
  Times and samples are Python and NumPy floating point numbers in the source; the model
  computes with exact rationals, so rounding is left out. \<open>gapMs\<close> is a JSON number,
  an integer or a fraction, of either sign. \<open>py_int\<close> is \<open>int(x)\<close>, which truncates
  towards zero.
\<close>

type_synonym samples = "rat list"

definition py_int :: "rat \<Rightarrow> int" where
  "py_int q = (if 0 \<le> q then \<lfloor>q\<rfloor> else \<lceil>q\<rceil>)"

text \<open>
  The exceptions a run can end in. \<open>OtherError\<close> carries the name of any other exception
  class, as the environment raises it (a file that cannot be opened, a format that
  soundfile does not know, a model that fails to load).
\<close>

datatype py_exception =
    ValueError
  | KeyError string
  | MemoryError
  | ModuleNotFoundError
  | OtherError string

text \<open>
  What a run meets outside the script: whether the speech package imports, whether
  loading the model (\<open>preload_models()\<close>, \<open>Dia(...)\<close>) and reading the script file
  (\<open>open\<close>, \<open>json.load\<close>) raise, how large an array the machine can allocate, whether
  \<open>soundfile\<close> imports, and whether \<open>sf.write\<close> and \<open>open(ts_path, "w")\<close> raise at
  a given path. None of these calls sits in a \<open>try\<close>, the import of the speech package
  apart.
\<close>

record environment =
  tts_installed :: bool
  load_error :: "py_exception option"
  read_error :: "py_exception option"
  capacity :: int
  soundfile_installed :: bool
  sf_write_error :: "string \<Rightarrow> py_exception option"
  ts_open_error :: "string \<Rightarrow> py_exception option"

text \<open>
  \<open>np.zeros(n, dtype=np.float32)\<close> raises ValueError for a negative dimension and for
  an array whose size in bytes, four for each sample, is beyond the largest size of a
  64-bit platform, and MemoryError for an array the machine cannot allocate.
  \<open>np.concatenate\<close> allocates its result in the same way. The arrays of the loop body
  (the half second of a pause, what the speech model returns) are allocated inside the
  \<open>try\<close>; they are taken to fit.
\<close>

definition np_zeros :: "int \<Rightarrow> int \<Rightarrow> py_exception + samples" where
  "np_zeros cap n =
     (if n < 0 \<or> 9223372036854775807 < 4 * n then Inl ValueError
      else if cap < n then Inl MemoryError
      else Inr (replicate (nat n) 0))"

definition np_concatenate :: "int \<Rightarrow> samples list \<Rightarrow> py_exception + samples" where
  "np_concatenate cap arrays =
     (if cap < int (length (concat arrays)) then Inl MemoryError
      else Inr (concat arrays))"

text \<open>
  Peak normalisation, as both scripts write it:
  \<^verbatim>\<open>
    max_val = np.max(np.abs(combined))
    if max_val > 0:
        combined = combined / max_val * 0.95
  \<close>
  \<open>np.max\<close> of an array of size zero raises ValueError.
\<close>

definition peak_normalize :: "samples \<Rightarrow> py_exception + samples" where
  "peak_normalize combined =
     (if combined = [] then Inl ValueError
      else let max_val = Max (set (map abs combined))
           in if max_val > 0 then Inr (map (\<lambda>x. x / max_val * (95 / 100)) combined)
              else Inr combined)"

text \<open>
  \<open>os.path.dirname\<close> and \<open>os.path.join\<close> of the POSIX path module, and the last
  component of a path (\<open>os.path.basename\<close>).
\<close>

definition path_head :: "string \<Rightarrow> string" where
  "path_head p = rev (dropWhile (\<lambda>c. c \<noteq> CHR ''/'') (rev p))"

definition rstrip_slash :: "string \<Rightarrow> string" where
  "rstrip_slash p = rev (dropWhile (\<lambda>c. c = CHR ''/'') (rev p))"

definition dirname :: "string \<Rightarrow> string" where
  "dirname p =
     (let head = path_head p
      in if head \<noteq> [] \<and> head \<noteq> replicate (length head) (CHR ''/'')
         then rstrip_slash head else head)"

definition basename :: "string \<Rightarrow> string" where
  "basename p = rev (takeWhile (\<lambda>c. c \<noteq> CHR ''/'') (rev p))"

definition path_join :: "string \<Rightarrow> string \<Rightarrow> string" where
  "path_join a b =
     (if b \<noteq> [] \<and> hd b = CHR ''/'' then b
      else if a = [] \<or> last a = CHR ''/'' then a @ b
      else a @ ''/'' @ b)"

section \<open>What a run accumulates and what it leaves behind\<close>

text \<open>
  A call of the speech model either raises an exception (with its message) or returns
  \<open>None\<close> or an array of samples. The model is a parameter of the run; the index of the
  unit being synthesised is passed along, since the model need not answer the same text
  twice in the same way.
\<close>

datatype synth = Raises string | Returns "samples option"

record timestamp =
  ts_sectionId :: string
  startTime :: rat
  endTime :: rat

text \<open>
  Every array appended to \<open>all_audio\<close> is kept together with its origin: the silence gap
  appended by iteration \<open>i\<close> of the loop, or the audio of unit \<open>i\<close>. The list the source
  holds is \<open>map snd\<close> of this one.
\<close>

datatype origin = Gap nat | Unit nat

type_synonym piece = "origin \<times> samples"

text \<open>The lines written to stderr.\<close>

datatype log_line =
    BarkWarnFailed nat string string
  | BarkWarnNoAudio nat string
  | DiaWarnFailed string string
  | DiaWarnNoAudio string
  | ErrorMissingPackage
  | ErrorNoAudio
  | Summary

record loop_state =
  all_audio :: "piece list"
  timestamps :: "timestamp list"
  current_time :: rat
  stderr :: "log_line list"

record written_files =
  wav_path :: string
  wav_samples :: samples
  wav_rate :: nat
  ts_path :: string
  ts_records :: "timestamp list"

text \<open>
  A run ends in \<open>sys.exit(1)\<close> (the package is missing, or no audio was generated), in
  an exception nobody catches, or by writing its two files. An aborted run keeps the
  paths of the files it had written by then. The Python interpreter exits with status 1
  on an uncaught exception and with status 0 when the script ends.
\<close>

datatype abort = MissingPackage | NoAudio | Uncaught py_exception

datatype outcome =
    Aborted abort "string list" "log_line list"
  | Completed written_files "log_line list"

fun exit_code :: "outcome \<Rightarrow> int" where
  "exit_code (Aborted a written err) = 1"
| "exit_code (Completed out err) = 0"

fun files_written :: "outcome \<Rightarrow> string list" where
  "files_written (Aborted a written err) = written"
| "files_written (Completed out err) = [wav_path out, ts_path out]"

fun stderr_of :: "outcome \<Rightarrow> log_line list" where
  "stderr_of (Aborted a written err) = err"
| "stderr_of (Completed out err) = err"

definition get_or :: "'a \<Rightarrow> 'a option \<Rightarrow> 'a" where
  "get_or dflt v = (case v of None \<Rightarrow> dflt | Some x \<Rightarrow> x)"

text \<open>
  The run reaches the loop when the package imports, the model loads and the script is
  read. \<open>before_loop\<close> is the abort the run ends in otherwise.
\<close>

definition starts :: "environment \<Rightarrow> bool" where
  "starts env = (tts_installed env \<and> load_error env = None \<and> read_error env = None)"

definition before_loop :: "environment \<Rightarrow> outcome option" where
  "before_loop env =
     (if \<not> tts_installed env then Some (Aborted MissingPackage [] [ErrorMissingPackage])
      else (case load_error env of
              Some e \<Rightarrow> Some (Aborted (Uncaught e) [] [])
            | None \<Rightarrow>
                (case read_error env of
                   Some e \<Rightarrow> Some (Aborted (Uncaught e) [] [])
                 | None \<Rightarrow> None)))"

definition timestamps_path :: "string \<Rightarrow> string" where
  "timestamps_path output_path = path_join (dirname output_path) ''timestamps.json''"

text \<open>
  The lines both scripts end with, after the loop: the exit when no audio was generated,
  the concatenation and normalisation, then
  \<^verbatim>\<open>
    import soundfile as sf
    sf.write(output_path, combined, sample_rate)
    ts_path = os.path.join(os.path.dirname(output_path), "timestamps.json")
    with open(ts_path, "w") as f:
        json.dump(timestamps, f, indent=2)
  \<close>
  and the summary line. When opening the timestamp file fails, the WAV file is already
  written. A call of \<open>sf.write\<close> that raises is taken to leave no file behind, as when
  the extension names no format or the directory does not exist; writing to a file that
  is open is taken to succeed.
\<close>

definition save_outputs ::
  "environment \<Rightarrow> nat \<Rightarrow> string \<Rightarrow> piece list \<Rightarrow> timestamp list \<Rightarrow> log_line list \<Rightarrow> outcome" where
  "save_outputs env sample_rate output_path pieces records err =
     (if pieces = [] then Aborted NoAudio [] (err @ [ErrorNoAudio])
      else
        (case np_concatenate (capacity env) (map snd pieces) of
           Inl e \<Rightarrow> Aborted (Uncaught e) [] err
         | Inr joined \<Rightarrow>
             (case peak_normalize joined of
                Inl e \<Rightarrow> Aborted (Uncaught e) [] err
              | Inr combined \<Rightarrow>
                  if \<not> soundfile_installed env
                  then Aborted (Uncaught ModuleNotFoundError) [] err
                  else
                    (case sf_write_error env output_path of
                       Some e \<Rightarrow> Aborted (Uncaught e) [] err
                     | None \<Rightarrow>
                         (case ts_open_error env (timestamps_path output_path) of
                            Some e \<Rightarrow> Aborted (Uncaught e) [output_path] err
                          | None \<Rightarrow>
                              Completed
                                \<lparr>wav_path = output_path, wav_samples = combined,
                                 wav_rate = sample_rate,
                                 ts_path = timestamps_path output_path,
                                 ts_records = records\<rparr>
                                (err @ [Summary]))))))"

section \<open>generate\_bark.py: generate\<close>

text \<open>
  A segment is a JSON object whose fields, when present, are strings; \<open>None\<close> is an
  absent key. \<open>SAMPLE_RATE\<close> is imported from the bark package; the source notes its
  value. The progress events on stdout and the wall-clock \<open>generation_times\<close>, which feed
  only the estimate in those events and the summary line, are left out.
\<close>

record segment =
  seg_sectionId :: "string option"
  seg_speakerPreset :: "string option"
  seg_text :: "string option"
  seg_direction :: "string option"

record bark_script =
  bark_segments :: "segment list option"
  bark_gapMs :: "rat option"

type_synonym bark_tts = "nat \<Rightarrow> string \<Rightarrow> string \<Rightarrow> synth"

definition SAMPLE_RATE :: nat where
  "SAMPLE_RATE = 24000"

record bark_state = loop_state +
  current_section_id :: "string option"
  section_start_time :: rat

definition bark_init :: bark_state where
  "bark_init =
     \<lparr>all_audio = [], timestamps = [], current_time = 0, stderr = [],
      current_section_id = None, section_start_time = 0\<rparr>"

text \<open>\<open>direction and direction.lower() in ("pauses", "pause")\<close>.\<close>

definition is_pause :: "string option \<Rightarrow> bool" where
  "is_pause direction =
     (case direction of
        None \<Rightarrow> False
      | Some d \<Rightarrow> d \<noteq> [] \<and> (lower d = ''pauses'' \<or> lower d = ''pause''))"

definition pause_samples :: nat where
  "pause_samples = nat (py_int (of_nat SAMPLE_RATE * (1 / 2)))"

text \<open>The section bookkeeping at the head of the loop body.\<close>

definition track_section :: "rat \<Rightarrow> samples \<Rightarrow> nat \<Rightarrow> string \<Rightarrow> bark_state \<Rightarrow> bark_state" where
  "track_section gap_ms silence_gap i section_id st =
     (if Some section_id \<noteq> current_section_id st then
        let st1 =
              (case current_section_id st of
                 None \<Rightarrow> st
               | Some cur \<Rightarrow>
                   st\<lparr>timestamps := timestamps st @
                        [\<lparr>ts_sectionId = cur, startTime = section_start_time st,
                          endTime = current_time st\<rparr>],
                      all_audio := all_audio st @ [(Gap i, silence_gap)],
                      current_time := current_time st + gap_ms / 1000\<rparr>)
        in st1\<lparr>current_section_id := Some section_id,
               section_start_time := current_time st1\<rparr>
      else st)"

text \<open>
  The audio of one segment, after the blank test: \<open>Inl e\<close> when the speech model raises
  \<open>e\<close>, otherwise the value of \<open>audio\<close>.
\<close>

definition bark_audio ::
  "bark_tts \<Rightarrow> nat \<Rightarrow> string \<Rightarrow> string \<Rightarrow> string \<Rightarrow> string option \<Rightarrow> string + samples option" where
  "bark_audio generate_audio i speaker_preset txt processed_text direction =
     (if is_pause direction then
        let audio = replicate pause_samples 0
        in if \<not> blank txt then
             (case generate_audio i processed_text speaker_preset of
                Raises e \<Rightarrow> Inl e
              | Returns None \<Rightarrow> Inr (Some audio)
              | Returns (Some text_audio) \<Rightarrow> Inr (Some (audio @ text_audio)))
           else Inr (Some audio)
      else
        (case generate_audio i processed_text speaker_preset of
           Raises e \<Rightarrow> Inl e
         | Returns audio \<Rightarrow> Inr audio))"

definition bark_step ::
  "bark_tts \<Rightarrow> rat \<Rightarrow> samples \<Rightarrow> nat \<Rightarrow> segment \<Rightarrow> bark_state \<Rightarrow> bark_state" where
  "bark_step generate_audio gap_ms silence_gap i seg st =
     (let section_id = get_or ''unknown'' (seg_sectionId seg);
          speaker_preset = get_or ''v2/en_speaker_0'' (seg_speakerPreset seg);
          txt = get_or [] (seg_text seg);
          direction = seg_direction seg;
          st1 = track_section gap_ms silence_gap i section_id st;
          processed_text = process_text txt direction
      in if blank processed_text then st1
         else
           (case bark_audio generate_audio i speaker_preset txt processed_text direction of
              Inl e \<Rightarrow> st1\<lparr>stderr := stderr st1 @ [BarkWarnFailed i section_id e]\<rparr>
            | Inr None \<Rightarrow> st1\<lparr>stderr := stderr st1 @ [BarkWarnNoAudio i section_id]\<rparr>
            | Inr (Some audio) \<Rightarrow>
                if length audio > 0 then
                  st1\<lparr>all_audio := all_audio st1 @ [(Unit i, audio)],
                      current_time :=
                        current_time st1 + of_nat (length audio) / of_nat SAMPLE_RATE\<rparr>
                else st1\<lparr>stderr := stderr st1 @ [BarkWarnNoAudio i section_id]\<rparr>))"

fun bark_loop ::
  "bark_tts \<Rightarrow> rat \<Rightarrow> samples \<Rightarrow> (nat \<times> segment) list \<Rightarrow> bark_state \<Rightarrow> bark_state" where
  "bark_loop generate_audio gap_ms silence_gap [] st = st"
| "bark_loop generate_audio gap_ms silence_gap ((i, seg) # rest) st =
     bark_loop generate_audio gap_ms silence_gap rest
       (bark_step generate_audio gap_ms silence_gap i seg st)"

text \<open>Closing the last section, after the loop.\<close>

definition close_section :: "bark_state \<Rightarrow> bark_state" where
  "close_section st =
     (case current_section_id st of
        None \<Rightarrow> st
      | Some cur \<Rightarrow>
          st\<lparr>timestamps := timestamps st @
               [\<lparr>ts_sectionId = cur, startTime = section_start_time st,
                 endTime = current_time st\<rparr>]\<rparr>)"

definition bark_generate ::
  "environment \<Rightarrow> bark_tts \<Rightarrow> bark_script \<Rightarrow> string \<Rightarrow> outcome" where
  "bark_generate env generate_audio script_data output_path =
     (case before_loop env of
        Some aborted \<Rightarrow> aborted
      | None \<Rightarrow>
          let segments = get_or [] (bark_segments script_data);
              gap_ms = get_or 400 (bark_gapMs script_data);
              gap_samples = py_int (of_nat SAMPLE_RATE * gap_ms / 1000)
          in case np_zeros (capacity env) gap_samples of
               Inl e \<Rightarrow> Aborted (Uncaught e) [] []
             | Inr silence_gap \<Rightarrow>
                 let st = close_section
                            (bark_loop generate_audio gap_ms silence_gap
                               (enumerate 0 segments) bark_init)
                 in save_outputs env SAMPLE_RATE output_path
                      (all_audio st) (timestamps st) (stderr st))"

section \<open>generate\_dia.py: generate\<close>

text \<open>
  A chunk is a JSON object; \<open>chunk["sectionId"]\<close> and \<open>chunk["text"]\<close> raise KeyError
  for an absent key (\<open>None\<close>), outside the \<open>try\<close> of the loop body.
\<close>

record chunk =
  chunk_sectionId :: "string option"
  chunk_text :: "string option"

record dia_script =
  dia_chunks :: "chunk list option"
  dia_gapMs :: "rat option"

type_synonym dia_tts = "nat \<Rightarrow> string \<Rightarrow> synth"

definition dia_sample_rate :: nat where
  "dia_sample_rate = 44100"

definition dia_init :: loop_state where
  "dia_init = \<lparr>all_audio = [], timestamps = [], current_time = 0, stderr = []\<rparr>"

definition dia_step ::
  "dia_tts \<Rightarrow> rat \<Rightarrow> samples \<Rightarrow> nat \<Rightarrow> nat \<Rightarrow> chunk \<Rightarrow> loop_state \<Rightarrow> py_exception + loop_state" where
  "dia_step model_generate gap_ms silence_gap n i chunk st =
     (case chunk_sectionId chunk of
        None \<Rightarrow> Inl (KeyError ''sectionId'')
      | Some section_id \<Rightarrow>
          (case chunk_text chunk of
             None \<Rightarrow> Inl (KeyError ''text'')
           | Some txt \<Rightarrow>
               (case model_generate i txt of
                  Raises e \<Rightarrow> Inr (st\<lparr>stderr := stderr st @ [DiaWarnFailed section_id e]\<rparr>)
                | Returns None \<Rightarrow> Inr (st\<lparr>stderr := stderr st @ [DiaWarnNoAudio section_id]\<rparr>)
                | Returns (Some audio) \<Rightarrow>
                    if length audio > 0 then
                      let duration = of_nat (length audio) / of_nat dia_sample_rate;
                          st1 = st\<lparr>timestamps := timestamps st @
                                      [\<lparr>ts_sectionId = section_id,
                                        startTime = current_time st,
                                        endTime = current_time st + duration\<rparr>],
                                    all_audio := all_audio st @ [(Unit i, audio)],
                                    current_time := current_time st + duration\<rparr>
                      in if int i < int n - 1 then
                           Inr (st1\<lparr>all_audio := all_audio st1 @ [(Gap i, silence_gap)],
                                    current_time := current_time st1 + gap_ms / 1000\<rparr>)
                         else Inr st1
                    else Inr (st\<lparr>stderr := stderr st @ [DiaWarnNoAudio section_id]\<rparr>))))"

text \<open>
  The loop; an exception that leaves the loop body ends it, and the lines already written
  to stderr stay written.
\<close>

fun dia_loop ::
  "dia_tts \<Rightarrow> rat \<Rightarrow> samples \<Rightarrow> nat \<Rightarrow> (nat \<times> chunk) list \<Rightarrow> loop_state \<Rightarrow>
     (py_exception \<times> log_line list) + loop_state" where
  "dia_loop model_generate gap_ms silence_gap n [] st = Inr st"
| "dia_loop model_generate gap_ms silence_gap n ((i, chunk) # rest) st =
     (case dia_step model_generate gap_ms silence_gap n i chunk st of
        Inl e \<Rightarrow> Inl (e, stderr st)
      | Inr st' \<Rightarrow> dia_loop model_generate gap_ms silence_gap n rest st')"

definition dia_generate ::
  "environment \<Rightarrow> dia_tts \<Rightarrow> dia_script \<Rightarrow> string \<Rightarrow> outcome" where
  "dia_generate env model_generate script_data output_path =
     (case before_loop env of
        Some aborted \<Rightarrow> aborted
      | None \<Rightarrow>
          let chunks = get_or [] (dia_chunks script_data);
              gap_ms = get_or 300 (dia_gapMs script_data);
              gap_samples = py_int (of_nat dia_sample_rate * gap_ms / 1000)
          in case np_zeros (capacity env) gap_samples of
               Inl e \<Rightarrow> Aborted (Uncaught e) [] []
             | Inr silence_gap \<Rightarrow>
                 (case dia_loop model_generate gap_ms silence_gap (length chunks)
                         (enumerate 0 chunks) dia_init of
                    Inl (e, err) \<Rightarrow> Aborted (Uncaught e) [] err
                  | Inr st \<Rightarrow>
                      save_outputs env dia_sample_rate output_path
                        (all_audio st) (timestamps st) (stderr st)))"

section \<open>Sections, runs and the properties of a timestamp index\<close>

text \<open>The section id and the audio that one Bark segment adds to the run, if any.\<close>

definition seg_section :: "segment \<Rightarrow> string" where
  "seg_section seg = get_or ''unknown'' (seg_sectionId seg)"

definition bark_unit_audio :: "bark_tts \<Rightarrow> nat \<Rightarrow> segment \<Rightarrow> samples option" where
  "bark_unit_audio generate_audio i seg =
     (let txt = get_or [] (seg_text seg);
          direction = seg_direction seg;
          processed_text = process_text txt direction
      in if blank processed_text then None
         else
           (case bark_audio generate_audio i
                   (get_or ''v2/en_speaker_0'' (seg_speakerPreset seg))
                   txt processed_text direction of
              Inl e \<Rightarrow> None
            | Inr None \<Rightarrow> None
            | Inr (Some audio) \<Rightarrow> if length audio > 0 then Some audio else None))"

text \<open>The audio that one Dia chunk adds to the run, if any.\<close>

definition dia_unit_audio :: "dia_tts \<Rightarrow> nat \<Rightarrow> chunk \<Rightarrow> samples option" where
  "dia_unit_audio model_generate i chunk =
     (case chunk_text chunk of
        None \<Rightarrow> None
      | Some txt \<Rightarrow>
          (case model_generate i txt of
             Raises e \<Rightarrow> None
           | Returns None \<Rightarrow> None
           | Returns (Some audio) \<Rightarrow> if length audio > 0 then Some audio else None))"

definition duration_of :: "nat \<Rightarrow> samples option \<Rightarrow> rat" where
  "duration_of rate a = (case a of None \<Rightarrow> 0 | Some x \<Rightarrow> of_nat (length x) / of_nat rate)"

text \<open>
  The timestamp index as the specification words it. A run is a maximal block of
  consecutive units that share a section id; its duration is the sum of the durations of
  its units. There is one record per run, from the time the run starts to the time it
  ends, and the inter-section gap lies between two runs.
\<close>

fun section_runs :: "(string \<times> rat) list \<Rightarrow> (string \<times> rat) list" where
  "section_runs [] = []"
| "section_runs [(s, d)] = [(s, d)]"
| "section_runs ((s, d) # (s', d') # rest) =
     (if s = s' then section_runs ((s, d + d') # rest)
      else (s, d) # section_runs ((s', d') # rest))"

fun run_records :: "rat \<Rightarrow> rat \<Rightarrow> (string \<times> rat) list \<Rightarrow> timestamp list" where
  "run_records gap t [] = []"
| "run_records gap t ((s, d) # rest) =
     \<lparr>ts_sectionId = s, startTime = t, endTime = t + d\<rparr> #
     run_records gap (t + d + gap) rest"

text \<open>The units of a Bark script: the section id and the duration of each segment.\<close>

definition bark_unit :: "bark_tts \<Rightarrow> nat \<times> segment \<Rightarrow> string \<times> rat" where
  "bark_unit generate_audio =
     (\<lambda>(i, seg). (seg_section seg,
                  duration_of SAMPLE_RATE (bark_unit_audio generate_audio i seg)))"

definition bark_units :: "bark_tts \<Rightarrow> segment list \<Rightarrow> (string \<times> rat) list" where
  "bark_units generate_audio segments = map (bark_unit generate_audio) (enumerate 0 segments)"

text \<open>
  The records still to come when the loop stands inside section \<open>c\<close>, which began at
  time \<open>s\<close>, and the time is \<open>t\<close>.
\<close>

fun open_records ::
  "rat \<Rightarrow> string \<Rightarrow> rat \<Rightarrow> rat \<Rightarrow> (string \<times> rat) list \<Rightarrow> timestamp list" where
  "open_records gap c s t [] = [\<lparr>ts_sectionId = c, startTime = s, endTime = t\<rparr>]"
| "open_records gap c s t ((sid, d) # rest) =
     (if sid = c then open_records gap c s (t + d) rest
      else \<lparr>ts_sectionId = c, startTime = s, endTime = t\<rparr> #
           open_records gap sid (t + gap) (t + gap + d) rest)"

text \<open>The units of a Dia script: the section id and the duration of each chunk.\<close>

definition dia_units :: "dia_tts \<Rightarrow> chunk list \<Rightarrow> (string \<times> rat) list" where
  "dia_units model_generate chunks =
     map (\<lambda>(i, chunk). (get_or [] (chunk_sectionId chunk),
                         duration_of dia_sample_rate (dia_unit_audio model_generate i chunk)))
       (enumerate 0 chunks)"

text \<open>
  The index generate\_dia.py writes: one record per chunk that yields audio, and the gap
  after each such chunk but the one at the last index.
\<close>

fun chunk_records ::
  "dia_tts \<Rightarrow> rat \<Rightarrow> nat \<Rightarrow> rat \<Rightarrow> (nat \<times> chunk) list \<Rightarrow> timestamp list" where
  "chunk_records model_generate gap n t [] = []"
| "chunk_records model_generate gap n t ((i, chunk) # rest) =
     (case dia_unit_audio model_generate i chunk of
        None \<Rightarrow> chunk_records model_generate gap n t rest
      | Some audio \<Rightarrow>
          (let d = duration_of dia_sample_rate (Some audio)
           in \<lparr>ts_sectionId = get_or [] (chunk_sectionId chunk),
                startTime = t, endTime = t + d\<rparr> #
              chunk_records model_generate gap n
                (t + d + (if i + 1 < n then gap else 0)) rest))"

text \<open>
  Time ranges that do not decrease and do not overlap; \<open>ordered_upto rs b\<close> says in
  addition that the last range ends at \<open>b\<close> or before.
\<close>

fun non_overlapping :: "timestamp list \<Rightarrow> bool" where
  "non_overlapping [] = True"
| "non_overlapping [r] = (startTime r \<le> endTime r)"
| "non_overlapping (r # r' # rs) =
     (startTime r \<le> endTime r \<and> endTime r \<le> startTime r' \<and> non_overlapping (r' # rs))"

fun ordered_upto :: "timestamp list \<Rightarrow> rat \<Rightarrow> bool" where
  "ordered_upto [] b = True"
| "ordered_upto [r] b = (startTime r \<le> endTime r \<and> endTime r \<le> b)"
| "ordered_upto (r # r' # rs) b =
     (startTime r \<le> endTime r \<and> endTime r \<le> startTime r' \<and> ordered_upto (r' # rs) b)"

definition bark_inv :: "bark_state \<Rightarrow> bool" where
  "bark_inv st =
     (ordered_upto (timestamps st) (section_start_time st) \<and>
      section_start_time st \<le> current_time st)"

definition dia_inv :: "loop_state \<Rightarrow> bool" where
  "dia_inv st = ordered_upto (timestamps st) (current_time st)"

text \<open>\<open>adjacent x y xs\<close>: \<open>y\<close> follows \<open>x\<close> at once somewhere in \<open>xs\<close>.\<close>

fun adjacent :: "'a \<Rightarrow> 'a \<Rightarrow> 'a list \<Rightarrow> bool" where
  "adjacent x y (a # b # rest) = ((a = x \<and> b = y) \<or> adjacent x y (b # rest))"
| "adjacent x y rest = False"



text \<open>
  What iteration \<open>k\<close> of either loop appends to \<open>all_audio\<close>: in generate\_bark.py the
  gap, when the section id differs from that of the segment before, and then the audio of
  the segment; in generate\_dia.py the audio of the chunk and then the gap, unless the
  chunk is the last one of the script.
\<close>

definition bark_pieces :: "bark_tts \<Rightarrow> samples \<Rightarrow> segment list \<Rightarrow> nat \<Rightarrow> piece list" where
  "bark_pieces generate_audio silence_gap segments k =
     (if 0 < k \<and> seg_section (segments ! (k - 1)) \<noteq> seg_section (segments ! k)
      then [(Gap k, silence_gap)] else []) @
     (case bark_unit_audio generate_audio k (segments ! k) of
        None \<Rightarrow> []
      | Some a \<Rightarrow> [(Unit k, a)])"

definition dia_pieces :: "dia_tts \<Rightarrow> samples \<Rightarrow> nat \<Rightarrow> nat \<Rightarrow> chunk \<Rightarrow> piece list" where
  "dia_pieces model_generate silence_gap n k chunk =
     (case dia_unit_audio model_generate k chunk of
        None \<Rightarrow> []
      | Some a \<Rightarrow> (Unit k, a) # (if Suc k < n then [(Gap k, silence_gap)] else []))"

section \<open>Example scripts\<close>

text \<open>
  A speech model that fails on the text \<open>boom\<close> and answers every other text with two
  samples, and a script of four units in three sections for each of the two programs.
\<close>

definition example_voice :: bark_tts where
  "example_voice i txt preset =
     (if txt = ''boom'' then Raises ''model error'' else Returns (Some [1 / 2, - (1 / 4)]))"

definition example_segment :: "string \<Rightarrow> string \<Rightarrow> segment" where
  "example_segment s txt =
     \<lparr>seg_sectionId = Some s, seg_speakerPreset = None, seg_text = Some txt,
      seg_direction = None\<rparr>"

definition example_segments :: "segment list" where
  "example_segments =
     [example_segment ''a'' ''hi'', example_segment ''a'' ''yo'',
      example_segment ''b'' ''boom'', example_segment ''c'' ''x'']"

definition example_script :: bark_script where
  "example_script = \<lparr>bark_segments = Some example_segments, bark_gapMs = Some 1\<rparr>"

definition example_model :: dia_tts where
  "example_model i txt =
     (if txt = ''boom'' then Raises ''model error'' else Returns (Some [1 / 2, - (1 / 4)]))"

definition example_chunk :: "string \<Rightarrow> string \<Rightarrow> chunk" where
  "example_chunk s txt = \<lparr>chunk_sectionId = Some s, chunk_text = Some txt\<rparr>"

definition example_chunks :: "chunk list" where
  "example_chunks =
     [example_chunk ''a'' ''hi'', example_chunk ''a'' ''yo'',
      example_chunk ''b'' ''boom'', example_chunk ''c'' ''x'']"

definition example_dia_script :: dia_script where
  "example_dia_script = \<lparr>dia_chunks = Some example_chunks, dia_gapMs = Some 10\<rparr>"

text \<open>Two chunks of one section, both of which the example model answers.\<close>

definition example_pair :: "chunk list" where
  "example_pair = [example_chunk ''a'' ''hi'', example_chunk ''a'' ''yo'']"

definition example_pair_script :: dia_script where
  "example_pair_script = \<lparr>dia_chunks = Some example_pair, dia_gapMs = Some 10\<rparr>"

text \<open>The files the two example runs write.\<close>

definition example_bark_files :: written_files where
  "example_bark_files =
     \<lparr>wav_path = ''out/a.wav'',
      wav_samples =
        19 / 20 # - (19 / 40) # 19 / 20 # - (19 / 40) #
        replicate 24 0 @ replicate 24 0 @ [19 / 20, - (19 / 40)],
      wav_rate = 24000, ts_path = ''out/timestamps.json'',
      ts_records =
        [\<lparr>ts_sectionId = ''a'', startTime = 0, endTime = 1 / 6000\<rparr>,
         \<lparr>ts_sectionId = ''b'', startTime = 7 / 6000, endTime = 7 / 6000\<rparr>,
         \<lparr>ts_sectionId = ''c'', startTime = 13 / 6000, endTime = 9 / 4000\<rparr>]\<rparr>"

definition example_dia_files :: written_files where
  "example_dia_files =
     \<lparr>wav_path = ''out/a.wav'',
      wav_samples =
        19 / 20 # - (19 / 40) # replicate 441 0 @
        19 / 20 # - (19 / 40) # replicate 441 0 @ [19 / 20, - (19 / 40)],
      wav_rate = 44100, ts_path = ''out/timestamps.json'',
      ts_records =
        [\<lparr>ts_sectionId = ''a'', startTime = 0, endTime = 1 / 22050\<rparr>,
         \<lparr>ts_sectionId = ''a'', startTime = 443 / 44100, endTime = 89 / 8820\<rparr>,
         \<lparr>ts_sectionId = ''c'', startTime = 443 / 22050, endTime = 74 / 3675\<rparr>]\<rparr>"

text \<open>
  Two Dia scripts whose second chunk lacks a key, and a Bark segment that has no key at
  all.
\<close>

definition example_no_text :: dia_script where
  "example_no_text =
     \<lparr>dia_chunks = Some [example_chunk ''a'' ''hi'',
                         \<lparr>chunk_sectionId = Some ''b'', chunk_text = None\<rparr>],
      dia_gapMs = Some 10\<rparr>"



text \<open>A Bark segment with a pause direction and blank text.\<close>

definition example_pause :: segment where
  "example_pause =
     \<lparr>seg_sectionId = Some ''s'', seg_speakerPreset = None, seg_text = Some '' '',
      seg_direction = Some ''pause''\<rparr>"

definition example_pause_script :: bark_script where
  "example_pause_script = \<lparr>bark_segments = Some [example_pause], bark_gapMs = None\<rparr>"

text \<open>A Bark script whose only segment makes the example model fail.\<close>

definition example_failing_script :: bark_script where
  "example_failing_script =
     \<lparr>bark_segments = Some [example_segment ''b'' ''boom''], bark_gapMs = Some 1\<rparr>"

text \<open>A Bark script of two sections with blank text and no gap between sections.\<close>

definition example_silent_script :: bark_script where
  "example_silent_script =
     \<lparr>bark_segments = Some [example_segment ''a'' '''', example_segment ''b'' ''''],
      bark_gapMs = Some 0\<rparr>"

text \<open>
  An environment in which nothing fails, and one in which \<open>sf.write\<close> does not know
  the format of a file called \<open>out/a.xyz\<close>.
\<close>

definition example_env :: environment where
  "example_env =
     \<lparr>tts_installed = True, load_error = None, read_error = None, capacity = 1000000,
      soundfile_installed = True, sf_write_error = (\<lambda>p. None),
      ts_open_error = (\<lambda>p. None)\<rparr>"

definition example_strict_env :: environment where
  "example_strict_env =
     example_env\<lparr>sf_write_error :=
       (\<lambda>p. if p = ''out/a.xyz'' then Some (OtherError ''TypeError'') else None)\<rparr>"

text \<open>An environment in which the speech package is not installed.\<close>

definition example_bare_env :: environment where
  "example_bare_env = example_env\<lparr>tts_installed := False\<rparr>"

text \<open>
  Two Bark segments in two sections, both of which the example voice answers, in a script
  whose gap is a hundredth of a millisecond below zero.
\<close>

definition example_backwards_script :: bark_script where
  "example_backwards_script =
     \<lparr>bark_segments = Some [example_segment ''a'' ''hi'', example_segment ''b'' ''yo''],
      bark_gapMs = Some (- (1 / 100))\<rparr>"

section \<open>Stage directions: results\<close>

lemma emotion_get_cases:
  "emotion_get k =
     (if k = ''laughs'' \<or> k = ''laughter'' then ''[laughter]''
      else if k = ''sighs'' \<or> k = ''sigh'' then ''[sighs]''
      else if k = ''gasps'' \<or> k = ''gasp'' then ''[gasps]''
      else [])"
  by (simp add: emotion_get_def EMOTION_MAP_def)

lemma lower_nonempty: "lower d = [] \<longleftrightarrow> d = []"
  by (simp add: lower_def)

text \<open>
  C7. \<open>process_text\<close> puts the Bark token of a recognised direction other than a pause
  (laughs, laughter, sighs, sigh, gasps, gasp, compared after lower-casing) before the text,
  separated by one space; for a direction that is no key of the emotion map, and for an
  absent direction, it returns the text as it is. The result is the only thing the
  function produces.
\<close>

theorem process_text_direction:
  "(lower d \<in> {''laughs'', ''laughter''} \<longrightarrow>
      process_text txt (Some d) = ''[laughter]'' @ '' '' @ txt) \<and>
   (lower d \<in> {''sighs'', ''sigh''} \<longrightarrow>
      process_text txt (Some d) = ''[sighs]'' @ '' '' @ txt) \<and>
   (lower d \<in> {''gasps'', ''gasp''} \<longrightarrow>
      process_text txt (Some d) = ''[gasps]'' @ '' '' @ txt) \<and>
   (lower d \<notin> fst ` set EMOTION_MAP \<longrightarrow> process_text txt (Some d) = txt) \<and>
   process_text txt None = txt"
proof -
  have ne: "lower d \<noteq> [] \<Longrightarrow> d \<noteq> []"
    by (simp add: lower_nonempty)
  have known: "\<And>tok. emotion_get (lower d) = tok \<Longrightarrow> tok \<noteq> [] \<Longrightarrow> d \<noteq> [] \<Longrightarrow>
      process_text txt (Some d) = tok @ '' '' @ txt"
    by (simp add: process_text_def Let_def)
  have unknown: "emotion_get (lower d) = [] \<Longrightarrow> process_text txt (Some d) = txt"
    by (simp add: process_text_def Let_def)
  have a: "lower d \<in> {''laughs'', ''laughter''} \<longrightarrow>
      process_text txt (Some d) = ''[laughter]'' @ '' '' @ txt"
    using known [of "''[laughter]''"] ne by (auto simp: emotion_get_cases)
  have b: "lower d \<in> {''sighs'', ''sigh''} \<longrightarrow>
      process_text txt (Some d) = ''[sighs]'' @ '' '' @ txt"
    using known [of "''[sighs]''"] ne by (auto simp: emotion_get_cases)
  have c: "lower d \<in> {''gasps'', ''gasp''} \<longrightarrow>
      process_text txt (Some d) = ''[gasps]'' @ '' '' @ txt"
    using known [of "''[gasps]''"] ne by (auto simp: emotion_get_cases)
  have d: "lower d \<notin> fst ` set EMOTION_MAP \<longrightarrow> process_text txt (Some d) = txt"
    using unknown by (auto simp: emotion_get_cases EMOTION_MAP_def)
  have e: "process_text txt None = txt"
    by (simp add: process_text_def)
  from a b c d e show ?thesis by blast
qed

theorem process_text_direction_witness:
  "lower ''LAUGHS'' \<in> {''laughs'', ''laughter''} \<and>
   process_text ''hello'' (Some ''LAUGHS'') = ''[laughter] hello'' \<and>
   lower ''Sigh'' \<in> {''sighs'', ''sigh''} \<and>
   process_text ''hello'' (Some ''Sigh'') = ''[sighs] hello'' \<and>
   lower ''gasps'' \<in> {''gasps'', ''gasp''} \<and>
   process_text ''hello'' (Some ''gasps'') = ''[gasps] hello'' \<and>
   lower ''whispers'' \<notin> fst ` set EMOTION_MAP \<and>
   process_text ''hello'' (Some ''whispers'') = ''hello''"
proof -
  have l1: "lower ''LAUGHS'' = ''laughs''" by code_simp
  have l2: "lower ''Sigh'' = ''sigh''" by code_simp
  have l3: "lower ''gasps'' = ''gasps''" by code_simp
  have l4: "lower ''whispers'' = ''whispers''" by code_simp
  have m4: "''whispers'' \<notin> fst ` set EMOTION_MAP" by (simp add: EMOTION_MAP_def)
  show ?thesis
    using process_text_direction [of "''LAUGHS''" "''hello''"]
      process_text_direction [of "''Sigh''" "''hello''"]
      process_text_direction [of "''gasps''" "''hello''"]
      process_text_direction [of "''whispers''" "''hello''"]
    by (simp add: l1 l2 l3 l4 m4)
qed


section \<open>The loop body, piece by piece\<close>

lemma track_section_None:
  "current_section_id st = None \<Longrightarrow>
   track_section gap_ms sg i s st =
     st\<lparr>current_section_id := Some s, section_start_time := current_time st\<rparr>"
  by (simp add: track_section_def)

lemma track_section_same:
  "current_section_id st = Some s \<Longrightarrow> track_section gap_ms sg i s st = st"
  by (simp add: track_section_def)

lemma track_section_other:
  "current_section_id st = Some c \<Longrightarrow> c \<noteq> s \<Longrightarrow>
   track_section gap_ms sg i s st =
     st\<lparr>timestamps := timestamps st @
          [\<lparr>ts_sectionId = c, startTime = section_start_time st, endTime = current_time st\<rparr>],
        all_audio := all_audio st @ [(Gap i, sg)],
        current_time := current_time st + gap_ms / 1000,
        current_section_id := Some s,
        section_start_time := current_time st + gap_ms / 1000\<rparr>"
  by (simp add: track_section_def Let_def)

lemma track_section_id [simp]:
  "current_section_id (track_section gap_ms sg i s st) = Some s"
  by (cases "current_section_id st") (auto simp: track_section_def Let_def)

lemma bark_step_parts:
  "bark_step tts gap_ms sg i seg st =
     (let st1 = track_section gap_ms sg i (seg_section seg) st
      in st1\<lparr>all_audio := all_audio st1 @
                (case bark_unit_audio tts i seg of None \<Rightarrow> [] | Some a \<Rightarrow> [(Unit i, a)]),
             current_time := current_time st1 +
                duration_of SAMPLE_RATE (bark_unit_audio tts i seg),
             stderr := stderr (bark_step tts gap_ms sg i seg st)\<rparr>)"
  by (simp add: bark_step_def bark_unit_audio_def seg_section_def duration_of_def Let_def
      split: sum.splits option.splits)

lemma bark_step_timestamps:
  "timestamps (bark_step tts gap_ms sg i seg st) =
   timestamps (track_section gap_ms sg i (seg_section seg) st)"
  by (subst bark_step_parts) (simp add: Let_def)

lemma bark_step_section_id:
  "current_section_id (bark_step tts gap_ms sg i seg st) = Some (seg_section seg)"
  by (subst bark_step_parts) (simp add: Let_def)

lemma bark_step_start:
  "section_start_time (bark_step tts gap_ms sg i seg st) =
   section_start_time (track_section gap_ms sg i (seg_section seg) st)"
  by (subst bark_step_parts) (simp add: Let_def)

lemma bark_step_time:
  "current_time (bark_step tts gap_ms sg i seg st) =
   current_time (track_section gap_ms sg i (seg_section seg) st) +
   duration_of SAMPLE_RATE (bark_unit_audio tts i seg)"
  by (subst bark_step_parts) (simp add: Let_def)

lemma bark_step_audio:
  "all_audio (bark_step tts gap_ms sg i seg st) =
   all_audio (track_section gap_ms sg i (seg_section seg) st) @
   (case bark_unit_audio tts i seg of None \<Rightarrow> [] | Some a \<Rightarrow> [(Unit i, a)])"
  by (subst bark_step_parts) (simp add: Let_def)

lemma duration_of_nonneg: "0 \<le> duration_of rate a"
  by (simp add: duration_of_def split: option.splits)

lemma ordered_upto_mono: "ordered_upto rs b \<Longrightarrow> b \<le> c \<Longrightarrow> ordered_upto rs c"
  by (induction rs b rule: ordered_upto.induct) auto

lemma ordered_upto_snoc:
  "ordered_upto rs b \<Longrightarrow> b \<le> startTime r \<Longrightarrow> startTime r \<le> endTime r \<Longrightarrow> endTime r \<le> c \<Longrightarrow>
   ordered_upto (rs @ [r]) c"
  by (induction rs b rule: ordered_upto.induct) auto

lemma ordered_upto_non_overlapping: "ordered_upto rs b \<Longrightarrow> non_overlapping rs"
  by (induction rs b rule: ordered_upto.induct) auto

lemma track_section_inv:
  assumes "0 \<le> gap_ms" "bark_inv st"
  shows "bark_inv (track_section gap_ms sg i s st)"
proof (cases "current_section_id st")
  case None
  with assms show ?thesis
    by (auto simp: track_section_None bark_inv_def intro: ordered_upto_mono)
next
  case (Some c)
  show ?thesis
  proof (cases "c = s")
    case True
    with Some assms show ?thesis by (simp add: track_section_same)
  next
    case False
    have g: "(0::rat) \<le> gap_ms / 1000" using assms(1) by simp
    from assms(2) have o: "ordered_upto (timestamps st) (section_start_time st)"
      and le: "section_start_time st \<le> current_time st"
      by (simp_all add: bark_inv_def)
    have "ordered_upto (timestamps st @
        [\<lparr>ts_sectionId = c, startTime = section_start_time st, endTime = current_time st\<rparr>])
        (current_time st + gap_ms / 1000)"
      using o le g by (intro ordered_upto_snoc [where b = "section_start_time st"]) auto
    with Some False show ?thesis
      by (simp add: track_section_other bark_inv_def)
  qed
qed

lemma bark_step_inv:
  assumes "0 \<le> gap_ms" "bark_inv st"
  shows "bark_inv (bark_step tts gap_ms sg i seg st)"
proof -
  have "bark_inv (track_section gap_ms sg i (seg_section seg) st)"
    using assms by (rule track_section_inv)
  moreover have "0 \<le> duration_of SAMPLE_RATE (bark_unit_audio tts i seg)"
    by (rule duration_of_nonneg)
  ultimately show ?thesis
    by (simp add: bark_inv_def bark_step_timestamps bark_step_start bark_step_time)
qed

lemma bark_loop_inv:
  "0 \<le> gap_ms \<Longrightarrow> bark_inv st \<Longrightarrow> bark_inv (bark_loop tts gap_ms sg xs st)"
  by (induction xs arbitrary: st) (auto simp: bark_step_inv)

lemma close_section_ordered:
  assumes "bark_inv st"
  shows "non_overlapping (timestamps (close_section st))"
proof (cases "current_section_id st")
  case None
  with assms show ?thesis
    by (auto simp: close_section_def bark_inv_def dest: ordered_upto_non_overlapping)
next
  case (Some c)
  from assms have "ordered_upto (timestamps st @
        [\<lparr>ts_sectionId = c, startTime = section_start_time st, endTime = current_time st\<rparr>])
        (current_time st)"
    unfolding bark_inv_def
    by (intro ordered_upto_snoc [where b = "section_start_time st"]) auto
  with Some show ?thesis
    by (auto simp: close_section_def dest: ordered_upto_non_overlapping)
qed

lemma bark_init_inv: "bark_inv bark_init"
  by (simp add: bark_inv_def bark_init_def)

lemma dia_step_inv:
  assumes "0 \<le> gap_ms" "dia_inv st" "dia_step tts gap_ms sg n i chunk st = Inr st'"
  shows "dia_inv st'"
proof -
  have g: "(0::rat) \<le> gap_ms / 1000" using assms(1) by simp
  have snoc: "\<And>s d e. 0 \<le> (d::rat) \<Longrightarrow> 0 \<le> e \<Longrightarrow>
     ordered_upto (timestamps st @
        [\<lparr>ts_sectionId = s, startTime = current_time st, endTime = current_time st + d\<rparr>])
        (current_time st + d + e)"
    using assms(2) unfolding dia_inv_def
    by (intro ordered_upto_snoc [where b = "current_time st"]) auto
  show ?thesis
    using assms(2,3) g snoc [of _ 0] snoc [of "_ / _" "gap_ms / 1000"]
    by (auto simp: dia_step_def dia_inv_def Let_def split: option.splits synth.splits if_splits)
qed

lemma dia_loop_inv:
  "0 \<le> gap_ms \<Longrightarrow> dia_inv st \<Longrightarrow> dia_loop tts gap_ms sg n xs st = Inr st' \<Longrightarrow> dia_inv st'"
proof (induction xs arbitrary: st)
  case Nil
  then show ?case by simp
next
  case (Cons x xs)
  obtain i chunk where x: "x = (i, chunk)" by (cases x)
  from Cons.prems(3) obtain st1 where
    s1: "dia_step tts gap_ms sg n i chunk st = Inr st1" and
    r: "dia_loop tts gap_ms sg n xs st1 = Inr st'"
    by (auto simp: x split: sum.splits)
  from Cons.prems(1,2) s1 have "dia_inv st1" by (rule dia_step_inv)
  with Cons.IH Cons.prems(1) r show ?case by blast
qed

section \<open>Before and after the loop\<close>

lemma before_loop_None: "before_loop env = None \<longleftrightarrow> starts env"
  by (auto simp: before_loop_def starts_def split: option.splits)

lemma np_zeros_result:
  assumes "np_zeros cap n = Inr sg"
  shows "sg = replicate (nat n) 0" and "0 \<le> n" and "n \<le> cap"
  using assms by (auto simp: np_zeros_def split: if_splits)

lemma close_section_audio [simp]: "all_audio (close_section st) = all_audio st"
  by (simp add: close_section_def split: option.splits)

lemma close_section_stderr [simp]: "stderr (close_section st) = stderr st"
  by (simp add: close_section_def split: option.splits)

lemma save_outputs_completed:
  assumes "save_outputs env rate out pieces records err = Completed w e"
  shows "wav_path w = out" and "ts_path w = timestamps_path out"
    and "ts_records w = records" and "e = err @ [Summary]" and "pieces \<noteq> []"
    and "peak_normalize (concat (map snd pieces)) = Inr (wav_samples w)"
    and "soundfile_installed env" and "sf_write_error env out = None"
    and "ts_open_error env (timestamps_path out) = None"
  using assms
  by (auto simp: save_outputs_def np_concatenate_def
      split: if_splits sum.splits option.splits)

lemma bark_generate_completed:
  assumes "bark_generate env tts script_data output_path = Completed w err"
  shows "\<exists>sg. starts env \<and>
     np_zeros (capacity env)
       (py_int (of_nat SAMPLE_RATE * get_or 400 (bark_gapMs script_data) / 1000)) = Inr sg \<and>
     save_outputs env SAMPLE_RATE output_path
       (all_audio (bark_loop tts (get_or 400 (bark_gapMs script_data)) sg
          (enumerate 0 (get_or [] (bark_segments script_data))) bark_init))
       (timestamps (close_section (bark_loop tts (get_or 400 (bark_gapMs script_data)) sg
          (enumerate 0 (get_or [] (bark_segments script_data))) bark_init)))
       (stderr (bark_loop tts (get_or 400 (bark_gapMs script_data)) sg
          (enumerate 0 (get_or [] (bark_segments script_data))) bark_init)) =
       Completed w err"
proof (cases "before_loop env")
  case None
  then have "starts env" by (simp add: before_loop_None)
  with assms None show ?thesis
    by (auto simp: bark_generate_def Let_def split: sum.splits)
next
  case (Some aborted)
  with assms have "aborted = Completed w err"
    by (simp add: bark_generate_def)
  with Some show ?thesis
    by (auto simp: before_loop_def split: if_splits option.splits)
qed

lemma dia_generate_completed:
  assumes "dia_generate env tts script_data output_path = Completed w err"
  shows "\<exists>sg st. starts env \<and>
     np_zeros (capacity env)
       (py_int (of_nat dia_sample_rate * get_or 300 (dia_gapMs script_data) / 1000)) = Inr sg \<and>
     dia_loop tts (get_or 300 (dia_gapMs script_data)) sg
       (length (get_or [] (dia_chunks script_data)))
       (enumerate 0 (get_or [] (dia_chunks script_data))) dia_init = Inr st \<and>
     save_outputs env dia_sample_rate output_path (all_audio st) (timestamps st) (stderr st) =
       Completed w err"
proof (cases "before_loop env")
  case None
  then have "starts env" by (simp add: before_loop_None)
  with assms None show ?thesis
    by (auto simp: dia_generate_def Let_def split: sum.splits prod.splits)
next
  case (Some aborted)
  with assms have "aborted = Completed w err"
    by (simp add: dia_generate_def)
  with Some show ?thesis
    by (auto simp: before_loop_def split: if_splits option.splits)
qed

lemma bark_generate_starts:
  assumes "starts env"
    and "np_zeros (capacity env)
       (py_int (of_nat SAMPLE_RATE * get_or 400 (bark_gapMs script_data) / 1000)) = Inr sg"
  shows "bark_generate env tts script_data output_path =
     save_outputs env SAMPLE_RATE output_path
       (all_audio (bark_loop tts (get_or 400 (bark_gapMs script_data)) sg
          (enumerate 0 (get_or [] (bark_segments script_data))) bark_init))
       (timestamps (close_section (bark_loop tts (get_or 400 (bark_gapMs script_data)) sg
          (enumerate 0 (get_or [] (bark_segments script_data))) bark_init)))
       (stderr (bark_loop tts (get_or 400 (bark_gapMs script_data)) sg
          (enumerate 0 (get_or [] (bark_segments script_data))) bark_init))"
  using assms by (simp add: bark_generate_def Let_def before_loop_None [symmetric])

lemma dia_generate_starts:
  assumes "starts env"
    and "np_zeros (capacity env)
       (py_int (of_nat dia_sample_rate * get_or 300 (dia_gapMs script_data) / 1000)) = Inr sg"
  shows "dia_generate env tts script_data output_path =
     (case dia_loop tts (get_or 300 (dia_gapMs script_data)) sg
             (length (get_or [] (dia_chunks script_data)))
             (enumerate 0 (get_or [] (dia_chunks script_data))) dia_init of
        Inl (e, err) \<Rightarrow> Aborted (Uncaught e) [] err
      | Inr st \<Rightarrow>
          save_outputs env dia_sample_rate output_path
            (all_audio st) (timestamps st) (stderr st))"
  using assms by (simp add: dia_generate_def Let_def before_loop_None [symmetric])








lemma peak_normalize_raises: "peak_normalize combined = Inl e \<longleftrightarrow> combined = [] \<and> e = ValueError"
  by (auto simp: peak_normalize_def Let_def)

lemma peak_normalize_total: "combined \<noteq> [] \<Longrightarrow> \<exists>written. peak_normalize combined = Inr written"
  by (simp add: peak_normalize_def Let_def)

lemma save_outputs_empty:
  "save_outputs env rate out [] records err = Aborted NoAudio [] (err @ [ErrorNoAudio])"
  by (simp add: save_outputs_def)

lemma save_outputs_no_audio:
  "(\<exists>err'. save_outputs env rate out pieces records err = Aborted NoAudio [] err') \<longleftrightarrow>
     pieces = []"
  by (auto simp: save_outputs_def split: sum.splits option.splits)

lemma peak_normalize_Nil: "peak_normalize [] = Inl ValueError"
  by (simp add: peak_normalize_def)

lemma peak_normalize_Inr: "peak_normalize combined = Inr written \<Longrightarrow> combined \<noteq> []"
  by (auto simp: peak_normalize_def)


lemma save_outputs_files:
  "files_written (save_outputs env rate out pieces records err) =
     (if concat (map snd pieces) \<noteq> [] \<and>
         int (length (concat (map snd pieces))) \<le> capacity env \<and>
         soundfile_installed env \<and> sf_write_error env out = None
      then (if ts_open_error env (timestamps_path out) = None
            then [out, timestamps_path out] else [out])
      else [])"
proof -
  define c where "c = concat (map snd pieces)"
  have e: "pieces = [] \<Longrightarrow> c = []"
    by (simp add: c_def)
  show ?thesis
    unfolding save_outputs_def np_concatenate_def c_def [symmetric]
    using e
    by (cases "peak_normalize c")
      (auto simp: peak_normalize_raises peak_normalize_Nil dest: peak_normalize_Inr
        split: option.splits)
qed


section \<open>The example runs\<close>

lemmas run_eval =
  get_or_def Let_def np_zeros_def np_concatenate_def py_int_def peak_normalize_def
  timestamps_path_def dirname_def path_head_def rstrip_slash_def path_join_def blank_def
  isspace_def before_loop_def save_outputs_def example_env_def

lemmas bark_eval =
  bark_generate_def bark_step_def track_section_def bark_init_def process_text_def
  bark_audio_def is_pause_def SAMPLE_RATE_def close_section_def
  example_voice_def example_segment_def example_segments_def example_script_def

lemmas dia_eval =
  dia_generate_def dia_step_def dia_init_def dia_sample_rate_def
  example_model_def example_chunk_def example_chunks_def example_dia_script_def

lemma example_bark_loop:
  "bark_loop example_voice 1 (replicate 24 0) (enumerate 0 example_segments) bark_init =
     \<lparr>all_audio =
        [(Unit 0, [1 / 2, - (1 / 4)]), (Unit (Suc 0), [1 / 2, - (1 / 4)]),
         (Gap (Suc (Suc 0)), replicate 24 0),
         (Gap (Suc (Suc (Suc 0))), replicate 24 0),
         (Unit (Suc (Suc (Suc 0))), [1 / 2, - (1 / 4)])],
      timestamps =
        [\<lparr>ts_sectionId = ''a'', startTime = 0, endTime = 1 / 6000\<rparr>,
         \<lparr>ts_sectionId = ''b'', startTime = 7 / 6000, endTime = 7 / 6000\<rparr>],
      current_time = 9 / 4000,
      stderr = [BarkWarnFailed (Suc (Suc 0)) ''b'' ''model error''],
      current_section_id = Some ''c'', section_start_time = 13 / 6000\<rparr>"
  by (simp add: bark_eval run_eval)

lemma example_bark_run:
  "bark_generate example_env example_voice example_script ''out/a.wav'' =
     Completed
       \<lparr>wav_path = ''out/a.wav'',
        wav_samples =
          19 / 20 # - (19 / 40) # 19 / 20 # - (19 / 40) #
          replicate 24 0 @ replicate 24 0 @ [19 / 20, - (19 / 40)],
        wav_rate = 24000, ts_path = ''out/timestamps.json'',
        ts_records =
          [\<lparr>ts_sectionId = ''a'', startTime = 0, endTime = 1 / 6000\<rparr>,
           \<lparr>ts_sectionId = ''b'', startTime = 7 / 6000, endTime = 7 / 6000\<rparr>,
           \<lparr>ts_sectionId = ''c'', startTime = 13 / 6000, endTime = 9 / 4000\<rparr>]\<rparr>
       [BarkWarnFailed (Suc (Suc 0)) ''b'' ''model error'', Summary]"
  by (simp add: bark_eval run_eval)

lemma example_dia_loop:
  "dia_loop example_model 10 (replicate 441 0) 4 (enumerate 0 example_chunks) dia_init =
     Inr \<lparr>all_audio =
            [(Unit 0, [1 / 2, - (1 / 4)]), (Gap 0, replicate 441 0),
             (Unit (Suc 0), [1 / 2, - (1 / 4)]), (Gap (Suc 0), replicate 441 0),
             (Unit (Suc (Suc (Suc 0))), [1 / 2, - (1 / 4)])],
          timestamps =
            [\<lparr>ts_sectionId = ''a'', startTime = 0, endTime = 1 / 22050\<rparr>,
             \<lparr>ts_sectionId = ''a'', startTime = 443 / 44100, endTime = 89 / 8820\<rparr>,
             \<lparr>ts_sectionId = ''c'', startTime = 443 / 22050, endTime = 74 / 3675\<rparr>],
          current_time = 74 / 3675,
          stderr = [DiaWarnFailed ''b'' ''model error'']\<rparr>"
  by (simp add: dia_eval run_eval)

lemma example_dia_run:
  "dia_generate example_env example_model example_dia_script ''out/a.wav'' =
     Completed
       \<lparr>wav_path = ''out/a.wav'',
        wav_samples =
          19 / 20 # - (19 / 40) # replicate 441 0 @
          19 / 20 # - (19 / 40) # replicate 441 0 @ [19 / 20, - (19 / 40)],
        wav_rate = 44100, ts_path = ''out/timestamps.json'',
        ts_records =
          [\<lparr>ts_sectionId = ''a'', startTime = 0, endTime = 1 / 22050\<rparr>,
           \<lparr>ts_sectionId = ''a'', startTime = 443 / 44100, endTime = 89 / 8820\<rparr>,
           \<lparr>ts_sectionId = ''c'', startTime = 443 / 22050, endTime = 74 / 3675\<rparr>]\<rparr>
       [DiaWarnFailed ''b'' ''model error'', Summary]"
  by (simp add: dia_eval run_eval)

lemma example_bark_completed:
  "bark_generate example_env example_voice example_script ''out/a.wav'' =
     Completed example_bark_files
       [BarkWarnFailed (Suc (Suc 0)) ''b'' ''model error'', Summary]"
  by (simp add: example_bark_run example_bark_files_def)

lemma example_dia_completed:
  "dia_generate example_env example_model example_dia_script ''out/a.wav'' =
     Completed example_dia_files [DiaWarnFailed ''b'' ''model error'', Summary]"
  by (simp add: example_dia_run example_dia_files_def)

lemma example_gaps:
  "get_or 400 (bark_gapMs example_script) = 1"
  "get_or [] (bark_segments example_script) = example_segments"
  "get_or 300 (dia_gapMs example_dia_script) = 10"
  "get_or [] (dia_chunks example_dia_script) = example_chunks"
  by (simp_all add: get_or_def example_script_def example_dia_script_def)

lemma example_env_starts: "starts example_env"
  by (simp add: starts_def example_env_def)

lemma example_gap_buffers:
  "np_zeros (capacity example_env) (py_int (of_nat SAMPLE_RATE * 1 / 1000)) =
     Inr (replicate 24 0)"
  "np_zeros (capacity example_env) (py_int (of_nat dia_sample_rate * 10 / 1000)) =
     Inr (replicate 441 0)"
  by (simp_all add: np_zeros_def py_int_def SAMPLE_RATE_def dia_sample_rate_def example_env_def)


section \<open>Time ranges of the index\<close>

lemma bark_generate_ordered:
  assumes "0 \<le> get_or 400 (bark_gapMs script_data)"
    and "bark_generate env tts script_data output_path = Completed w err"
  shows "non_overlapping (ts_records w)"
proof -
  let ?gap_ms = "get_or 400 (bark_gapMs script_data)"
  from bark_generate_completed [OF assms(2)] obtain sg where
    "save_outputs env SAMPLE_RATE output_path
       (all_audio (bark_loop tts ?gap_ms sg
          (enumerate 0 (get_or [] (bark_segments script_data))) bark_init))
       (timestamps (close_section (bark_loop tts ?gap_ms sg
          (enumerate 0 (get_or [] (bark_segments script_data))) bark_init)))
       (stderr (bark_loop tts ?gap_ms sg
          (enumerate 0 (get_or [] (bark_segments script_data))) bark_init)) =
       Completed w err"
    by blast
  then have w: "ts_records w = timestamps (close_section
          (bark_loop tts ?gap_ms sg (enumerate 0 (get_or [] (bark_segments script_data)))
             bark_init))"
    by (rule save_outputs_completed)
  have "bark_inv (bark_loop tts ?gap_ms sg
      (enumerate 0 (get_or [] (bark_segments script_data))) bark_init)"
    using assms(1) bark_init_inv by (rule bark_loop_inv)
  then show ?thesis
    unfolding w by (rule close_section_ordered)
qed

lemma dia_generate_ordered:
  assumes "0 \<le> get_or 300 (dia_gapMs script_data)"
    and "dia_generate env tts script_data output_path = Completed w err"
  shows "non_overlapping (ts_records w)"
proof -
  let ?gap_ms = "get_or 300 (dia_gapMs script_data)"
  let ?chunks = "get_or [] (dia_chunks script_data)"
  from dia_generate_completed [OF assms(2)] obtain sg st where
    l: "dia_loop tts ?gap_ms sg (length ?chunks) (enumerate 0 ?chunks) dia_init = Inr st" and
    s: "save_outputs env dia_sample_rate output_path (all_audio st) (timestamps st)
          (stderr st) = Completed w err"
    by blast
  from s have w: "ts_records w = timestamps st"
    by (rule save_outputs_completed)
  have "dia_inv dia_init"
    by (simp add: dia_inv_def dia_init_def)
  with assms(1) have "dia_inv st"
    using l by (rule dia_loop_inv)
  then show ?thesis
    unfolding w dia_inv_def by (rule ordered_upto_non_overlapping)
qed

lemma ceiling_small_negative: "\<lceil>- (6 / 25) :: rat\<rceil> = 0"
  by (rule ceiling_unique) simp_all

lemma example_backwards_run:
  "bark_generate example_env example_voice example_backwards_script ''out/a.wav'' =
     Completed
       \<lparr>wav_path = ''out/a.wav'',
        wav_samples = [19 / 20, - (19 / 40), 19 / 20, - (19 / 40)],
        wav_rate = 24000, ts_path = ''out/timestamps.json'',
        ts_records =
          [\<lparr>ts_sectionId = ''a'', startTime = 0, endTime = 1 / 12000\<rparr>,
           \<lparr>ts_sectionId = ''b'', startTime = 11 / 150000, endTime = 47 / 300000\<rparr>]\<rparr>
       [Summary]"
  by (simp add: example_backwards_script_def bark_eval run_eval ceiling_small_negative)

text \<open>
  C2, as the code has it. When \<open>gapMs\<close> is not negative, the records of the timestamp
  index that a run writes, in output order, have \<open>startTime \<le> endTime\<close> each, and each
  record ends no later than the next one starts, in generate\_bark.py and in
  generate\_dia.py. The property is an invariant of the loop: every iteration of either
  loop preserves it (for Bark together with the open section, which the code closes after
  the loop). Neither script checks the sign of \<open>gapMs\<close>: a negative gap smaller than one
  sample passes \<open>np.zeros\<close> and moves the time backwards.
\<close>

theorem timestamps_non_overlapping:
  "(0 \<le> get_or 400 (bark_gapMs script_data) \<and>
    bark_generate env tts script_data output_path = Completed w err \<longrightarrow>
      non_overlapping (ts_records w)) \<and>
   (0 \<le> get_or 300 (dia_gapMs script_data') \<and>
    dia_generate env' model script_data' output_path' = Completed w' err' \<longrightarrow>
      non_overlapping (ts_records w')) \<and>
   (0 \<le> gap_ms \<and> bark_inv st \<longrightarrow>
      bark_inv (bark_step tts gap_ms sg i seg st) \<and>
      non_overlapping (timestamps (close_section (bark_step tts gap_ms sg i seg st)))) \<and>
   (0 \<le> gap_ms \<and> dia_inv dst \<and> dia_step model gap_ms sg n i chunk dst = Inr dst' \<longrightarrow>
      dia_inv dst' \<and> non_overlapping (timestamps dst'))"
proof -
  have a: "0 \<le> get_or 400 (bark_gapMs script_data) \<and>
    bark_generate env tts script_data output_path = Completed w err \<longrightarrow>
      non_overlapping (ts_records w)"
    using bark_generate_ordered by blast
  have b: "0 \<le> get_or 300 (dia_gapMs script_data') \<and>
    dia_generate env' model script_data' output_path' = Completed w' err' \<longrightarrow>
      non_overlapping (ts_records w')"
    using dia_generate_ordered by blast
  have c: "0 \<le> gap_ms \<and> bark_inv st \<longrightarrow>
      bark_inv (bark_step tts gap_ms sg i seg st) \<and>
      non_overlapping (timestamps (close_section (bark_step tts gap_ms sg i seg st)))"
    using bark_step_inv [of gap_ms st tts sg i seg] close_section_ordered by blast
  have d: "0 \<le> gap_ms \<and> dia_inv dst \<and> dia_step model gap_ms sg n i chunk dst = Inr dst' \<longrightarrow>
      dia_inv dst' \<and> non_overlapping (timestamps dst')"
    using dia_step_inv [of gap_ms dst model sg n i chunk dst']
      ordered_upto_non_overlapping [of "timestamps dst'" "current_time dst'"]
    unfolding dia_inv_def by blast
  from a b c d show ?thesis by blast
qed

theorem timestamps_non_overlapping_witness:
  "0 \<le> get_or 400 (bark_gapMs example_script) \<and>
   bark_generate example_env example_voice example_script ''out/a.wav'' =
     Completed example_bark_files
       [BarkWarnFailed (Suc (Suc 0)) ''b'' ''model error'', Summary] \<and>
   non_overlapping (ts_records example_bark_files) \<and>
   0 \<le> get_or 300 (dia_gapMs example_dia_script) \<and>
   dia_generate example_env example_model example_dia_script ''out/a.wav'' =
     Completed example_dia_files [DiaWarnFailed ''b'' ''model error'', Summary] \<and>
   non_overlapping (ts_records example_dia_files) \<and>
   (0::rat) \<le> 1 \<and> bark_inv bark_init \<and>
   bark_inv (bark_step example_voice 1 [] 0 (example_segment ''a'' ''hi'') bark_init) \<and>
   dia_inv dia_init \<and>
   dia_step example_model 1 [] 4 0 (example_chunk ''a'' ''hi'') dia_init =
     Inr \<lparr>all_audio = [(Unit 0, [1 / 2, - (1 / 4)]), (Gap 0, [])],
          timestamps = [\<lparr>ts_sectionId = ''a'', startTime = 0, endTime = 1 / 22050\<rparr>],
          current_time = 461 / 441000, stderr = []\<rparr> \<and>
   dia_inv \<lparr>all_audio = [(Unit 0, [1 / 2, - (1 / 4)]), (Gap 0, [])],
          timestamps = [\<lparr>ts_sectionId = ''a'', startTime = 0, endTime = 1 / 22050\<rparr>],
          current_time = 461 / 441000, stderr = []\<rparr>"
proof -
  have s: "dia_step example_model 1 [] 4 0 (example_chunk ''a'' ''hi'') dia_init =
     Inr \<lparr>all_audio = [(Unit 0, [1 / 2, - (1 / 4)]), (Gap 0, [])],
          timestamps = [\<lparr>ts_sectionId = ''a'', startTime = 0, endTime = 1 / 22050\<rparr>],
          current_time = 461 / 441000, stderr = []\<rparr>"
    by (simp add: dia_eval run_eval)
  have b: "bark_inv bark_init" by (simp add: bark_inv_def bark_init_def)
  have d: "dia_inv dia_init" by (simp add: dia_inv_def dia_init_def)
  show ?thesis
    using timestamps_non_overlapping
      [where env = example_env and tts = example_voice and script_data = example_script
         and output_path = "''out/a.wav''" and w = example_bark_files
         and err = "[BarkWarnFailed (Suc (Suc 0)) ''b'' ''model error'', Summary]"
         and env' = example_env and model = example_model
         and script_data' = example_dia_script and output_path' = "''out/a.wav''"
         and w' = example_dia_files
         and err' = "[DiaWarnFailed ''b'' ''model error'', Summary]"
         and gap_ms = 1 and st = bark_init and sg = "[]" and i = 0
         and seg = "example_segment ''a'' ''hi''" and dst = dia_init and n = 4
         and chunk = "example_chunk ''a'' ''hi''"]
      example_bark_completed example_dia_completed s b d
    by (simp add: example_gaps)
qed

theorem timestamps_backwards_counterexample:
  "bark_generate example_env example_voice example_backwards_script ''out/a.wav'' =
     Completed
       \<lparr>wav_path = ''out/a.wav'',
        wav_samples = [19 / 20, - (19 / 40), 19 / 20, - (19 / 40)],
        wav_rate = 24000, ts_path = ''out/timestamps.json'',
        ts_records =
          [\<lparr>ts_sectionId = ''a'', startTime = 0, endTime = 1 / 12000\<rparr>,
           \<lparr>ts_sectionId = ''b'', startTime = 11 / 150000, endTime = 47 / 300000\<rparr>]\<rparr>
       [Summary] \<and>
   \<not> non_overlapping
       [\<lparr>ts_sectionId = ''a'', startTime = 0, endTime = 1 / 12000\<rparr>,
        \<lparr>ts_sectionId = ''b'', startTime = 11 / 150000, endTime = 47 / 300000\<rparr>]"
  by (simp add: example_backwards_run)


section \<open>One record per run\<close>

lemma bark_unit_pair:
  "bark_unit tts (i, seg) =
     (seg_section seg, duration_of SAMPLE_RATE (bark_unit_audio tts i seg))"
  by (simp add: bark_unit_def)

lemma bark_loop_records:
  "current_section_id st = Some c \<Longrightarrow>
   timestamps (close_section (bark_loop tts gap_ms sg xs st)) =
   timestamps st @
   open_records (gap_ms / 1000) c (section_start_time st) (current_time st)
     (map (bark_unit tts) xs)"
proof (induction xs arbitrary: st c)
  case Nil
  then show ?case by (simp add: close_section_def)
next
  case (Cons x xs)
  obtain i seg where x: "x = (i, seg)" by (cases x)
  let ?st' = "bark_step tts gap_ms sg i seg st"
  have id: "current_section_id ?st' = Some (seg_section seg)"
    by (rule bark_step_section_id)
  note IH = Cons.IH [OF id]
  show ?case
  proof (cases "seg_section seg = c")
    case True
    then have t: "track_section gap_ms sg i c st = st"
      using Cons.prems by (simp add: track_section_same)
    show ?thesis
      using True
      by (simp add: x IH bark_unit_pair bark_step_timestamps bark_step_start bark_step_time t)
  next
    case False
    then have t: "track_section gap_ms sg i (seg_section seg) st =
      st\<lparr>timestamps := timestamps st @
          [\<lparr>ts_sectionId = c, startTime = section_start_time st, endTime = current_time st\<rparr>],
        all_audio := all_audio st @ [(Gap i, sg)],
        current_time := current_time st + gap_ms / 1000,
        current_section_id := Some (seg_section seg),
        section_start_time := current_time st + gap_ms / 1000\<rparr>"
      using Cons.prems by (simp add: track_section_other)
    show ?thesis
      using False
      by (simp add: x IH bark_unit_pair bark_step_timestamps bark_step_start bark_step_time t)
  qed
qed

lemma open_records_runs:
  "open_records gap c s t ps = run_records gap s (section_runs ((c, t - s) # ps))"
proof (induction ps arbitrary: c s t)
  case Nil
  then show ?case by simp
next
  case (Cons p ps)
  obtain sid d where p: "p = (sid, d)" by (cases p)
  show ?case
  proof (cases "sid = c")
    case True
    then show ?thesis by (simp add: p Cons.IH diff_add_eq)
  next
    case False
    then show ?thesis by (simp add: p Cons.IH)
  qed
qed

lemma run_records_ids:
  "map ts_sectionId (run_records gap t (section_runs ps)) = remdups_adj (map fst ps)"
proof (induction ps arbitrary: t rule: section_runs.induct)
  case 1 show ?case by simp
next
  case (2 s d) show ?case by simp
next
  case (3 s d s' d' rest)
  show ?case
  proof (cases "s = s'")
    case True
    with 3(1) [of t] show ?thesis by simp
  next
    case False
    with 3(2) show ?thesis by simp
  qed
qed

lemma bark_loop_index:
  "timestamps (close_section (bark_loop tts gap_ms sg (enumerate 0 segments) bark_init)) =
   run_records (gap_ms / 1000) 0 (section_runs (bark_units tts segments))"
proof (cases segments)
  case Nil
  then show ?thesis by (simp add: bark_units_def close_section_def bark_init_def)
next
  case (Cons seg rest)
  let ?st = "bark_step tts gap_ms sg 0 seg bark_init"
  have id: "current_section_id ?st = Some (seg_section seg)"
    by (rule bark_step_section_id)
  have t: "track_section gap_ms sg 0 (seg_section seg) bark_init =
      bark_init\<lparr>current_section_id := Some (seg_section seg), section_start_time := 0\<rparr>"
    by (simp add: track_section_None bark_init_def)
  have f: "timestamps ?st = []" "section_start_time ?st = 0"
    "current_time ?st = duration_of SAMPLE_RATE (bark_unit_audio tts 0 seg)"
    by (simp_all add: bark_step_timestamps bark_step_start bark_step_time t)
      (simp_all add: bark_init_def)
  have "timestamps (close_section (bark_loop tts gap_ms sg (enumerate (Suc 0) rest) ?st)) =
    open_records (gap_ms / 1000) (seg_section seg) 0
      (duration_of SAMPLE_RATE (bark_unit_audio tts 0 seg))
      (map (bark_unit tts) (enumerate (Suc 0) rest))"
    unfolding bark_loop_records [OF id] f by simp
  then show ?thesis
    by (simp add: Cons bark_units_def open_records_runs bark_unit_pair)
qed

lemma dia_step_records:
  assumes "dia_step tts gap_ms sg n i chunk st = Inr st'"
  shows "timestamps st' = timestamps st @
           (case dia_unit_audio tts i chunk of
              None \<Rightarrow> []
            | Some a \<Rightarrow>
                [\<lparr>ts_sectionId = get_or [] (chunk_sectionId chunk),
                  startTime = current_time st,
                  endTime = current_time st + duration_of dia_sample_rate (Some a)\<rparr>])"
    and "current_time st' = current_time st +
           (case dia_unit_audio tts i chunk of
              None \<Rightarrow> 0
            | Some a \<Rightarrow> duration_of dia_sample_rate (Some a) +
                (if i + 1 < n then gap_ms / 1000 else 0))"
  using assms
  by (auto simp: dia_step_def dia_unit_audio_def duration_of_def get_or_def Let_def
      split: option.splits synth.splits if_splits)

lemma dia_loop_records:
  "dia_loop tts gap_ms sg n xs st = Inr st' \<Longrightarrow>
   timestamps st' =
   timestamps st @ chunk_records tts (gap_ms / 1000) n (current_time st) xs"
proof (induction xs arbitrary: st)
  case Nil
  then show ?case by simp
next
  case (Cons x xs)
  obtain i chunk where x: "x = (i, chunk)" by (cases x)
  from Cons.prems obtain st1 where
    s1: "dia_step tts gap_ms sg n i chunk st = Inr st1" and
    r: "dia_loop tts gap_ms sg n xs st1 = Inr st'"
    by (auto simp: x split: sum.splits)
  show ?case
    unfolding Cons.IH [OF r] dia_step_records [OF s1] x
    by (cases "dia_unit_audio tts i chunk") (simp_all add: Let_def add.assoc)
qed

lemma dia_generate_index:
  assumes "dia_generate env tts script_data output_path = Completed w err"
  shows "ts_records w =
     chunk_records tts (get_or 300 (dia_gapMs script_data) / 1000)
       (length (get_or [] (dia_chunks script_data))) 0
       (enumerate 0 (get_or [] (dia_chunks script_data)))"
proof -
  let ?gap_ms = "get_or 300 (dia_gapMs script_data)"
  let ?chunks = "get_or [] (dia_chunks script_data)"
  from dia_generate_completed [OF assms] obtain sg st where
    l: "dia_loop tts ?gap_ms sg (length ?chunks) (enumerate 0 ?chunks) dia_init = Inr st" and
    s: "save_outputs env dia_sample_rate output_path (all_audio st) (timestamps st)
          (stderr st) = Completed w err"
    by blast
  from s have w: "ts_records w = timestamps st"
    by (rule save_outputs_completed)
  show ?thesis
    unfolding w dia_loop_records [OF l] by (simp add: dia_init_def)
qed

lemma bark_generate_index:
  assumes "bark_generate env tts script_data output_path = Completed w err"
  shows "ts_records w =
     run_records (get_or 400 (bark_gapMs script_data) / 1000) 0
       (section_runs (bark_units tts (get_or [] (bark_segments script_data))))"
proof -
  from bark_generate_completed [OF assms] obtain sg where
    "save_outputs env SAMPLE_RATE output_path
       (all_audio (bark_loop tts (get_or 400 (bark_gapMs script_data)) sg
          (enumerate 0 (get_or [] (bark_segments script_data))) bark_init))
       (timestamps (close_section (bark_loop tts (get_or 400 (bark_gapMs script_data)) sg
          (enumerate 0 (get_or [] (bark_segments script_data))) bark_init)))
       (stderr (bark_loop tts (get_or 400 (bark_gapMs script_data)) sg
          (enumerate 0 (get_or [] (bark_segments script_data))) bark_init)) =
       Completed w err"
    by blast
  then have w: "ts_records w = timestamps (close_section
          (bark_loop tts (get_or 400 (bark_gapMs script_data)) sg
             (enumerate 0 (get_or [] (bark_segments script_data))) bark_init))"
    by (rule save_outputs_completed)
  show ?thesis
    unfolding w by (rule bark_loop_index)
qed

lemma bark_units_ids: "map fst (bark_units tts segments) = map seg_section segments"
proof -
  have "map fst (bark_units tts segments) = map (seg_section \<circ> snd) (enumerate 0 segments)"
    by (simp add: bark_units_def bark_unit_def comp_def case_prod_unfold)
  also have "\<dots> = map seg_section segments"
    by (simp flip: map_map)
  finally show ?thesis .
qed

lemma example_pair_run:
  "dia_generate example_env example_model example_pair_script ''out/a.wav'' =
     Completed
       \<lparr>wav_path = ''out/a.wav'',
        wav_samples = 19 / 20 # - (19 / 40) # replicate 441 0 @ [19 / 20, - (19 / 40)],
        wav_rate = 44100, ts_path = ''out/timestamps.json'',
        ts_records =
          [\<lparr>ts_sectionId = ''a'', startTime = 0, endTime = 1 / 22050\<rparr>,
           \<lparr>ts_sectionId = ''a'', startTime = 443 / 44100, endTime = 89 / 8820\<rparr>]\<rparr>
       [Summary]"
  by (simp add: dia_eval run_eval example_pair_def example_pair_script_def)

lemma example_pair_units:
  "dia_units example_model example_pair = [(''a'', 1 / 22050), (''a'', 1 / 22050)]"
  by (simp add: dia_units_def dia_unit_audio_def duration_of_def dia_eval run_eval
      example_pair_def)

lemma example_bark_units:
  "bark_units example_voice example_segments =
     [(''a'', 1 / 12000), (''a'', 1 / 12000), (''b'', 0), (''c'', 1 / 12000)]"
  by (simp add: bark_units_def bark_unit_def bark_unit_audio_def duration_of_def seg_section_def
      bark_eval run_eval)

lemma example_chunk_records:
  "chunk_records example_model (10 / 1000) 4 0 (enumerate 0 example_chunks) =
     [\<lparr>ts_sectionId = ''a'', startTime = 0, endTime = 1 / 22050\<rparr>,
      \<lparr>ts_sectionId = ''a'', startTime = 443 / 44100, endTime = 89 / 8820\<rparr>,
      \<lparr>ts_sectionId = ''c'', startTime = 443 / 22050, endTime = 74 / 3675\<rparr>]"
  by (simp add: dia_unit_audio_def duration_of_def dia_eval run_eval)

text \<open>
  C1, as the code has it. The index generate\_bark.py writes holds exactly one record per
  contiguous run of consecutive segments with the same section id, with that run's section
  id, the time the run starts and the time it ends, the gap lying between two runs; its
  section ids are those of the segments with adjacent repetitions removed. The index
  generate\_dia.py writes holds one record per chunk that yields audio, with that chunk's
  section id and the start and end of that chunk's audio, so a run of several chunks of
  one section gets several records.
\<close>

theorem timestamp_index_records:
  "(bark_generate env tts script_data output_path = Completed w err \<longrightarrow>
      ts_records w =
        run_records (get_or 400 (bark_gapMs script_data) / 1000) 0
          (section_runs (bark_units tts (get_or [] (bark_segments script_data)))) \<and>
      map ts_sectionId (ts_records w) =
        remdups_adj (map seg_section (get_or [] (bark_segments script_data)))) \<and>
   (dia_generate env' model script_data' output_path' = Completed w' err' \<longrightarrow>
      ts_records w' =
        chunk_records model (get_or 300 (dia_gapMs script_data') / 1000)
          (length (get_or [] (dia_chunks script_data'))) 0
          (enumerate 0 (get_or [] (dia_chunks script_data'))))"
proof -
  have a: "bark_generate env tts script_data output_path = Completed w err \<longrightarrow>
      ts_records w =
        run_records (get_or 400 (bark_gapMs script_data) / 1000) 0
          (section_runs (bark_units tts (get_or [] (bark_segments script_data))))"
    using bark_generate_index by blast
  have b: "bark_generate env tts script_data output_path = Completed w err \<longrightarrow>
      map ts_sectionId (ts_records w) =
        remdups_adj (map seg_section (get_or [] (bark_segments script_data)))"
    using bark_generate_index [of env tts script_data output_path w err]
    by (simp add: run_records_ids bark_units_ids)
  have c: "dia_generate env' model script_data' output_path' = Completed w' err' \<longrightarrow>
      ts_records w' =
        chunk_records model (get_or 300 (dia_gapMs script_data') / 1000)
          (length (get_or [] (dia_chunks script_data'))) 0
          (enumerate 0 (get_or [] (dia_chunks script_data')))"
    using dia_generate_index by blast
  from a b c show ?thesis by blast
qed

theorem timestamp_index_records_witness:
  "bark_generate example_env example_voice example_script ''out/a.wav'' =
     Completed
       \<lparr>wav_path = ''out/a.wav'',
        wav_samples =
          19 / 20 # - (19 / 40) # 19 / 20 # - (19 / 40) #
          replicate 24 0 @ replicate 24 0 @ [19 / 20, - (19 / 40)],
        wav_rate = 24000, ts_path = ''out/timestamps.json'',
        ts_records =
          [\<lparr>ts_sectionId = ''a'', startTime = 0, endTime = 1 / 6000\<rparr>,
           \<lparr>ts_sectionId = ''b'', startTime = 7 / 6000, endTime = 7 / 6000\<rparr>,
           \<lparr>ts_sectionId = ''c'', startTime = 13 / 6000, endTime = 9 / 4000\<rparr>]\<rparr>
       [BarkWarnFailed (Suc (Suc 0)) ''b'' ''model error'', Summary] \<and>
   [\<lparr>ts_sectionId = ''a'', startTime = 0, endTime = 1 / 6000\<rparr>,
    \<lparr>ts_sectionId = ''b'', startTime = 7 / 6000, endTime = 7 / 6000\<rparr>,
    \<lparr>ts_sectionId = ''c'', startTime = 13 / 6000, endTime = 9 / 4000\<rparr>] =
     run_records (1 / 1000) 0 (section_runs (bark_units example_voice example_segments)) \<and>
   [''a'', ''b'', ''c''] = remdups_adj (map seg_section example_segments) \<and>
   dia_generate example_env example_model example_dia_script ''out/a.wav'' =
     Completed
       \<lparr>wav_path = ''out/a.wav'',
        wav_samples =
          19 / 20 # - (19 / 40) # replicate 441 0 @
          19 / 20 # - (19 / 40) # replicate 441 0 @ [19 / 20, - (19 / 40)],
        wav_rate = 44100, ts_path = ''out/timestamps.json'',
        ts_records =
          [\<lparr>ts_sectionId = ''a'', startTime = 0, endTime = 1 / 22050\<rparr>,
           \<lparr>ts_sectionId = ''a'', startTime = 443 / 44100, endTime = 89 / 8820\<rparr>,
           \<lparr>ts_sectionId = ''c'', startTime = 443 / 22050, endTime = 74 / 3675\<rparr>]\<rparr>
       [DiaWarnFailed ''b'' ''model error'', Summary] \<and>
   [\<lparr>ts_sectionId = ''a'', startTime = 0, endTime = 1 / 22050\<rparr>,
    \<lparr>ts_sectionId = ''a'', startTime = 443 / 44100, endTime = 89 / 8820\<rparr>,
    \<lparr>ts_sectionId = ''c'', startTime = 443 / 22050, endTime = 74 / 3675\<rparr>] =
     chunk_records example_model (10 / 1000) 4 0 (enumerate 0 example_chunks)"
proof -
  have g: "get_or 400 (bark_gapMs example_script) = 1"
    "get_or [] (bark_segments example_script) = example_segments"
    "get_or 300 (dia_gapMs example_dia_script) = 10"
    "get_or [] (dia_chunks example_dia_script) = example_chunks"
    by (simp_all add: get_or_def example_script_def example_dia_script_def)
  have n: "length example_chunks = 4"
    by (simp add: example_chunks_def)
  let ?w = "\<lparr>wav_path = ''out/a.wav'',
        wav_samples =
          19 / 20 # - (19 / 40) # 19 / 20 # - (19 / 40) #
          replicate 24 0 @ replicate 24 0 @ [19 / 20, - (19 / 40)],
        wav_rate = 24000, ts_path = ''out/timestamps.json'',
        ts_records =
          [\<lparr>ts_sectionId = ''a'', startTime = 0, endTime = 1 / 6000\<rparr>,
           \<lparr>ts_sectionId = ''b'', startTime = 7 / 6000, endTime = 7 / 6000\<rparr>,
           \<lparr>ts_sectionId = ''c'', startTime = 13 / 6000, endTime = 9 / 4000\<rparr>]\<rparr>"
  let ?w' = "\<lparr>wav_path = ''out/a.wav'',
        wav_samples =
          19 / 20 # - (19 / 40) # replicate 441 0 @
          19 / 20 # - (19 / 40) # replicate 441 0 @ [19 / 20, - (19 / 40)],
        wav_rate = 44100, ts_path = ''out/timestamps.json'',
        ts_records =
          [\<lparr>ts_sectionId = ''a'', startTime = 0, endTime = 1 / 22050\<rparr>,
           \<lparr>ts_sectionId = ''a'', startTime = 443 / 44100, endTime = 89 / 8820\<rparr>,
           \<lparr>ts_sectionId = ''c'', startTime = 443 / 22050, endTime = 74 / 3675\<rparr>]\<rparr>"
  show ?thesis
    using timestamp_index_records
      [where env = example_env and tts = example_voice and script_data = example_script
         and output_path = "''out/a.wav''" and w = ?w
         and err = "[BarkWarnFailed (Suc (Suc 0)) ''b'' ''model error'', Summary]"
         and env' = example_env and model = example_model
         and script_data' = example_dia_script and output_path' = "''out/a.wav''"
         and w' = ?w' and err' = "[DiaWarnFailed ''b'' ''model error'', Summary]"]
      example_bark_run example_dia_run
    by (simp add: g n)
qed

theorem timestamp_index_dia_counterexample:
  "dia_generate example_env example_model example_pair_script ''out/a.wav'' =
     Completed
       \<lparr>wav_path = ''out/a.wav'',
        wav_samples = 19 / 20 # - (19 / 40) # replicate 441 0 @ [19 / 20, - (19 / 40)],
        wav_rate = 44100, ts_path = ''out/timestamps.json'',
        ts_records =
          [\<lparr>ts_sectionId = ''a'', startTime = 0, endTime = 1 / 22050\<rparr>,
           \<lparr>ts_sectionId = ''a'', startTime = 443 / 44100, endTime = 89 / 8820\<rparr>]\<rparr>
       [Summary] \<and>
   section_runs (dia_units example_model example_pair) = [(''a'', 1 / 11025)] \<and>
   [\<lparr>ts_sectionId = ''a'', startTime = 0, endTime = 1 / 22050\<rparr>,
    \<lparr>ts_sectionId = ''a'', startTime = 443 / 44100, endTime = 89 / 8820\<rparr>] \<noteq>
     run_records (10 / 1000) 0 (section_runs (dia_units example_model example_pair))"
  by (simp add: example_pair_run example_pair_units)


section \<open>Where the silence gaps go\<close>

lemma bark_loop_append:
  "bark_loop tts gap_ms sg (xs @ ys) st = bark_loop tts gap_ms sg ys (bark_loop tts gap_ms sg xs st)"
  by (induction xs arbitrary: st) auto

lemma enumerate_take_Suc:
  "k < length xs \<Longrightarrow> enumerate 0 (take (Suc k) xs) = enumerate 0 (take k xs) @ [(k, xs ! k)]"
  by (simp add: take_Suc_conv_app_nth enumerate_append_eq)

lemma track_section_audio:
  "all_audio (track_section gap_ms sg i s st) =
   all_audio st @
   (case current_section_id st of
      None \<Rightarrow> []
    | Some c \<Rightarrow> if c \<noteq> s then [(Gap i, sg)] else [])"
  by (auto simp: track_section_def Let_def split: option.splits)

lemma bark_prefix_state:
  "k \<le> length segments \<Longrightarrow>
   all_audio (bark_loop tts gap_ms sg (enumerate 0 (take k segments)) bark_init) =
     concat (map (bark_pieces tts sg segments) [0..<k]) \<and>
   current_section_id (bark_loop tts gap_ms sg (enumerate 0 (take k segments)) bark_init) =
     (if k = 0 then None else Some (seg_section (segments ! (k - 1))))"
proof (induction k)
  case 0
  show ?case by (simp add: bark_init_def)
next
  case (Suc k)
  then have k: "k < length segments" and
    IH: "all_audio (bark_loop tts gap_ms sg (enumerate 0 (take k segments)) bark_init) =
           concat (map (bark_pieces tts sg segments) [0..<k])"
        "current_section_id (bark_loop tts gap_ms sg (enumerate 0 (take k segments)) bark_init) =
           (if k = 0 then None else Some (seg_section (segments ! (k - 1))))"
    by simp_all
  have pk: "bark_pieces tts sg segments k =
      (if 0 < k \<and> seg_section (segments ! (k - 1)) \<noteq> seg_section (segments ! k)
       then [(Gap k, sg)] else []) @
      (case bark_unit_audio tts k (segments ! k) of None \<Rightarrow> [] | Some a \<Rightarrow> [(Unit k, a)])"
    by (simp add: bark_pieces_def)
  show ?case
    by (simp add: enumerate_take_Suc [OF k] bark_loop_append bark_step_audio
        bark_step_section_id track_section_audio IH pk)
qed

lemma bark_loop_pieces:
  "all_audio (bark_loop tts gap_ms sg (enumerate 0 segments) bark_init) =
   concat (map (bark_pieces tts sg segments) [0..<length segments])"
  using bark_prefix_state [of "length segments" segments tts gap_ms sg] by simp

lemma adjacent_append: "adjacent x y (pre @ x # y # post)"
  by (induction pre rule: adjacent.induct) auto

lemma upt_split_one:
  assumes "i < n"
  shows "[0..<n] = [0..<i] @ i # [Suc i..<n]"
proof -
  have "[0..<n] = [0..<i] @ [i..<n]"
    using upt_add_eq_append [of 0 i "n - i"] assms by simp
  also have "[i..<n] = i # [Suc i..<n]"
    using assms by (simp add: upt_conv_Cons)
  finally show ?thesis .
qed

lemma upt_split_pair:
  assumes "Suc i < n"
  shows "[0..<n] = [0..<i] @ i # Suc i # [Suc (Suc i)..<n]"
proof -
  have "[0..<n] = [0..<i] @ i # [Suc i..<n]"
    using assms by (intro upt_split_one) simp
  also have "[Suc i..<n] = Suc i # [Suc (Suc i)..<n]"
    using assms by (simp add: upt_conv_Cons)
  finally show ?thesis .
qed

lemma bark_gap_only_between_sections:
  assumes "(Gap i, a) \<in> set (all_audio (bark_loop tts gap_ms sg (enumerate 0 segments) bark_init))"
  shows "0 < i \<and> i < length segments \<and>
         seg_section (segments ! (i - 1)) \<noteq> seg_section (segments ! i) \<and> a = sg"
proof -
  from assms obtain k where "k < length segments" "(Gap i, a) \<in> set (bark_pieces tts sg segments k)"
    by (auto simp: bark_loop_pieces)
  then show ?thesis
    by (auto simp: bark_pieces_def split: if_splits option.splits)
qed

lemma bark_same_section_adjacent:
  assumes "Suc i < length segments"
    and "seg_section (segments ! i) = seg_section (segments ! Suc i)"
    and "bark_unit_audio tts i (segments ! i) = Some a"
    and "bark_unit_audio tts (Suc i) (segments ! Suc i) = Some b"
  shows "adjacent (Unit i, a) (Unit (Suc i), b)
           (all_audio (bark_loop tts gap_ms sg (enumerate 0 segments) bark_init))"
proof -
  obtain g where pi: "bark_pieces tts sg segments i = g @ [(Unit i, a)]"
    using assms(3) by (simp add: bark_pieces_def)
  have ps: "bark_pieces tts sg segments (Suc i) = [(Unit (Suc i), b)]"
    using assms(2,4) by (simp add: bark_pieces_def)
  have "all_audio (bark_loop tts gap_ms sg (enumerate 0 segments) bark_init) =
      (concat (map (bark_pieces tts sg segments) [0..<i]) @ g) @
      (Unit i, a) # (Unit (Suc i), b) #
      concat (map (bark_pieces tts sg segments) [Suc (Suc i)..<length segments])"
    by (simp add: bark_loop_pieces upt_split_pair [OF assms(1)] pi ps)
  then show ?thesis
    by (simp only: adjacent_append)
qed

lemma dia_step_audio:
  "dia_step tts gap_ms sg n i chunk st = Inr st' \<Longrightarrow>
   all_audio st' = all_audio st @ dia_pieces tts sg n i chunk"
  by (auto simp: dia_step_def dia_pieces_def dia_unit_audio_def Let_def
      split: option.splits synth.splits if_splits)

lemma dia_loop_audio:
  "dia_loop tts gap_ms sg n xs st = Inr st' \<Longrightarrow>
   all_audio st' = all_audio st @ concat (map (\<lambda>(i, chunk). dia_pieces tts sg n i chunk) xs)"
proof (induction xs arbitrary: st)
  case Nil
  then show ?case by simp
next
  case (Cons x xs)
  obtain i chunk where x: "x = (i, chunk)" by (cases x)
  from Cons.prems obtain st1 where
    s1: "dia_step tts gap_ms sg n i chunk st = Inr st1" and
    r: "dia_loop tts gap_ms sg n xs st1 = Inr st'"
    by (auto simp: x split: sum.splits)
  show ?case
    by (simp add: Cons.IH [OF r] dia_step_audio [OF s1] x)
qed

lemma map_enumerate_nth:
  "map (\<lambda>(i, x). f i x) (enumerate 0 xs) = map (\<lambda>k. f k (xs ! k)) [0..<length xs]"
  by (rule nth_equalityI) (simp_all add: nth_enumerate_eq)

lemma dia_loop_pieces:
  assumes "dia_loop tts gap_ms sg (length chunks) (enumerate 0 chunks) dia_init = Inr st"
  shows "all_audio st =
     concat (map (\<lambda>k. dia_pieces tts sg (length chunks) k (chunks ! k)) [0..<length chunks])"
  using dia_loop_audio [OF assms] by (simp add: map_enumerate_nth dia_init_def)

lemma dia_gap_follows_audio:
  assumes "dia_loop tts gap_ms sg (length chunks) (enumerate 0 chunks) dia_init = Inr st"
    and "Suc i < length chunks"
    and "dia_unit_audio tts i (chunks ! i) = Some a"
  shows "adjacent (Unit i, a) (Gap i, sg) (all_audio st)"
proof -
  let ?f = "\<lambda>k. dia_pieces tts sg (length chunks) k (chunks ! k)"
  have pi: "?f i = [(Unit i, a), (Gap i, sg)]"
    using assms(2,3) by (simp add: dia_pieces_def)
  have "all_audio st = concat (map ?f [0..<i]) @ (Unit i, a) # (Gap i, sg) #
      concat (map ?f [Suc i..<length chunks])"
    using pi upt_split_one [of i "length chunks"] assms(2)
    by (simp add: dia_loop_pieces [OF assms(1)])
  then show ?thesis
    by (simp only: adjacent_append)
qed

lemma dia_gap_only_after_audio:
  assumes "dia_loop tts gap_ms sg (length chunks) (enumerate 0 chunks) dia_init = Inr st"
    and "(Gap i, a) \<in> set (all_audio st)"
  shows "Suc i < length chunks \<and> dia_unit_audio tts i (chunks ! i) \<noteq> None \<and> a = sg"
proof -
  from assms(2) obtain k where "k < length chunks"
    "(Gap i, a) \<in> set (dia_pieces tts sg (length chunks) k (chunks ! k))"
    by (auto simp: dia_loop_pieces [OF assms(1)])
  then show ?thesis
    by (cases "dia_unit_audio tts k (chunks ! k)") (auto simp: dia_pieces_def split: if_splits)
qed

lemma example_pair_loop:
  "dia_loop example_model 10 (replicate 441 0) 2 (enumerate 0 example_pair) dia_init =
     Inr \<lparr>all_audio =
            [(Unit 0, [1 / 2, - (1 / 4)]), (Gap 0, replicate 441 0),
             (Unit (Suc 0), [1 / 2, - (1 / 4)])],
          timestamps =
            [\<lparr>ts_sectionId = ''a'', startTime = 0, endTime = 1 / 22050\<rparr>,
             \<lparr>ts_sectionId = ''a'', startTime = 443 / 44100, endTime = 89 / 8820\<rparr>],
          current_time = 89 / 8820, stderr = []\<rparr>"
  by (simp add: dia_eval run_eval example_pair_def)

lemma example_unit_audio:
  "bark_unit_audio example_voice 0 (example_segments ! 0) = Some [1 / 2, - (1 / 4)]"
  "bark_unit_audio example_voice (Suc 0) (example_segments ! Suc 0) = Some [1 / 2, - (1 / 4)]"
  "dia_unit_audio example_model 0 (example_chunks ! 0) = Some [1 / 2, - (1 / 4)]"
  by (simp_all add: bark_unit_audio_def dia_unit_audio_def bark_eval dia_eval run_eval)

text \<open>
  C3, as the code has it. generate\_bark.py appends the silence gap only where the section
  id changes from one segment to the next: every gap in \<open>all_audio\<close> was appended by an
  iteration whose segment has another section id than the segment before, and the audio of
  two consecutive segments of one section lies side by side. generate\_dia.py appends the
  gap right after the audio of every chunk that yields audio, except the chunk at the last
  index, and nowhere else; it does not look at section ids.
\<close>

theorem silence_gap_placement:
  "((Gap i, a) \<in> set (all_audio (bark_loop tts gap_ms sg (enumerate 0 segments) bark_init)) \<longrightarrow>
      0 < i \<and> i < length segments \<and>
      seg_section (segments ! (i - 1)) \<noteq> seg_section (segments ! i) \<and> a = sg) \<and>
   (Suc j < length segments \<and>
    seg_section (segments ! j) = seg_section (segments ! Suc j) \<and>
    bark_unit_audio tts j (segments ! j) = Some b \<and>
    bark_unit_audio tts (Suc j) (segments ! Suc j) = Some c \<longrightarrow>
      adjacent (Unit j, b) (Unit (Suc j), c)
        (all_audio (bark_loop tts gap_ms sg (enumerate 0 segments) bark_init))) \<and>
   (dia_loop model gap_ms' sg' (length chunks) (enumerate 0 chunks) dia_init = Inr dst \<and>
    Suc k < length chunks \<and> dia_unit_audio model k (chunks ! k) = Some d \<longrightarrow>
      adjacent (Unit k, d) (Gap k, sg') (all_audio dst)) \<and>
   (dia_loop model gap_ms' sg' (length chunks) (enumerate 0 chunks) dia_init = Inr dst \<and>
    (Gap m, e) \<in> set (all_audio dst) \<longrightarrow>
      Suc m < length chunks \<and> dia_unit_audio model m (chunks ! m) \<noteq> None \<and> e = sg')"
proof -
  have p1: "(Gap i, a) \<in> set (all_audio (bark_loop tts gap_ms sg (enumerate 0 segments) bark_init)) \<longrightarrow>
      0 < i \<and> i < length segments \<and>
      seg_section (segments ! (i - 1)) \<noteq> seg_section (segments ! i) \<and> a = sg"
    using bark_gap_only_between_sections by blast
  have p2: "Suc j < length segments \<and>
    seg_section (segments ! j) = seg_section (segments ! Suc j) \<and>
    bark_unit_audio tts j (segments ! j) = Some b \<and>
    bark_unit_audio tts (Suc j) (segments ! Suc j) = Some c \<longrightarrow>
      adjacent (Unit j, b) (Unit (Suc j), c)
        (all_audio (bark_loop tts gap_ms sg (enumerate 0 segments) bark_init))"
    using bark_same_section_adjacent by blast
  have p3: "dia_loop model gap_ms' sg' (length chunks) (enumerate 0 chunks) dia_init = Inr dst \<and>
    Suc k < length chunks \<and> dia_unit_audio model k (chunks ! k) = Some d \<longrightarrow>
      adjacent (Unit k, d) (Gap k, sg') (all_audio dst)"
    using dia_gap_follows_audio by blast
  have p4: "dia_loop model gap_ms' sg' (length chunks) (enumerate 0 chunks) dia_init = Inr dst \<and>
    (Gap m, e) \<in> set (all_audio dst) \<longrightarrow>
      Suc m < length chunks \<and> dia_unit_audio model m (chunks ! m) \<noteq> None \<and> e = sg'"
    using dia_gap_only_after_audio by blast
  from p1 p2 p3 p4 show ?thesis by blast
qed

theorem silence_gap_placement_witness:
  "(Gap 2, replicate 24 0) \<in>
     set (all_audio (bark_loop example_voice 1 (replicate 24 0)
                       (enumerate 0 example_segments) bark_init)) \<and>
   (0::nat) < 2 \<and> 2 < length example_segments \<and>
   seg_section (example_segments ! (2 - 1)) \<noteq> seg_section (example_segments ! 2) \<and>
   Suc 0 < length example_segments \<and>
   seg_section (example_segments ! 0) = seg_section (example_segments ! Suc 0) \<and>
   bark_unit_audio example_voice 0 (example_segments ! 0) = Some [1 / 2, - (1 / 4)] \<and>
   bark_unit_audio example_voice (Suc 0) (example_segments ! Suc 0) = Some [1 / 2, - (1 / 4)] \<and>
   adjacent (Unit 0, [1 / 2, - (1 / 4)]) (Unit (Suc 0), [1 / 2, - (1 / 4)])
     (all_audio (bark_loop example_voice 1 (replicate 24 0)
                   (enumerate 0 example_segments) bark_init)) \<and>
   dia_loop example_model 10 (replicate 441 0) (length example_chunks)
       (enumerate 0 example_chunks) dia_init =
     Inr \<lparr>all_audio =
            [(Unit 0, [1 / 2, - (1 / 4)]), (Gap 0, replicate 441 0),
             (Unit (Suc 0), [1 / 2, - (1 / 4)]), (Gap (Suc 0), replicate 441 0),
             (Unit (Suc (Suc (Suc 0))), [1 / 2, - (1 / 4)])],
          timestamps =
            [\<lparr>ts_sectionId = ''a'', startTime = 0, endTime = 1 / 22050\<rparr>,
             \<lparr>ts_sectionId = ''a'', startTime = 443 / 44100, endTime = 89 / 8820\<rparr>,
             \<lparr>ts_sectionId = ''c'', startTime = 443 / 22050, endTime = 74 / 3675\<rparr>],
          current_time = 74 / 3675,
          stderr = [DiaWarnFailed ''b'' ''model error'']\<rparr> \<and>
   Suc 0 < length example_chunks \<and>
   dia_unit_audio example_model 0 (example_chunks ! 0) = Some [1 / 2, - (1 / 4)] \<and>
   adjacent (Unit 0, [1 / 2, - (1 / 4)]) (Gap 0, replicate 441 0)
     [(Unit 0, [1 / 2, - (1 / 4)]), (Gap 0, replicate 441 0),
      (Unit (Suc 0), [1 / 2, - (1 / 4)]), (Gap (Suc 0), replicate 441 0),
      (Unit (Suc (Suc (Suc 0))), [1 / 2, - (1 / 4)])]"
proof -
  let ?dst = "\<lparr>all_audio =
            [(Unit 0, [1 / 2, - (1 / 4)]), (Gap 0, replicate 441 0),
             (Unit (Suc 0), [1 / 2, - (1 / 4)]), (Gap (Suc 0), replicate 441 0),
             (Unit (Suc (Suc (Suc 0))), [1 / 2, - (1 / 4)])],
          timestamps =
            [\<lparr>ts_sectionId = ''a'', startTime = 0, endTime = 1 / 22050\<rparr>,
             \<lparr>ts_sectionId = ''a'', startTime = 443 / 44100, endTime = 89 / 8820\<rparr>,
             \<lparr>ts_sectionId = ''c'', startTime = 443 / 22050, endTime = 74 / 3675\<rparr>],
          current_time = 74 / 3675,
          stderr = [DiaWarnFailed ''b'' ''model error'']\<rparr>"
  have n: "length example_segments = 4" "length example_chunks = 4"
    by (simp_all add: example_segments_def example_chunks_def)
  have g: "(Gap 2, replicate 24 0) \<in>
     set (all_audio (bark_loop example_voice 1 (replicate 24 0)
                       (enumerate 0 example_segments) bark_init))"
    by (simp add: example_bark_loop numeral_2_eq_2)
  have l: "dia_loop example_model 10 (replicate 441 0) (length example_chunks)
       (enumerate 0 example_chunks) dia_init = Inr ?dst"
    by (simp add: n example_dia_loop)
  have s: "seg_section (example_segments ! 0) = seg_section (example_segments ! Suc 0)"
    by (simp add: example_segments_def example_segment_def seg_section_def get_or_def)
  show ?thesis
    using silence_gap_placement
      [where tts = example_voice and gap_ms = 1 and sg = "replicate 24 0"
         and segments = example_segments and i = 2 and a = "replicate 24 0" and j = 0
         and b = "[1 / 2, - (1 / 4)]" and c = "[1 / 2, - (1 / 4)]"
         and model = example_model and gap_ms' = 10 and sg' = "replicate 441 0"
         and chunks = example_chunks and dst = ?dst and k = 0 and d = "[1 / 2, - (1 / 4)]"
         and m = 0 and e = "replicate 441 0"]
      g l s example_unit_audio
    by (simp add: n)
qed

theorem silence_gap_dia_counterexample:
  "np_zeros (capacity example_env) (py_int (of_nat dia_sample_rate * 10 / 1000)) =
     Inr (replicate 441 0) \<and>
   chunk_sectionId (example_pair ! 0) = chunk_sectionId (example_pair ! 1) \<and>
   dia_loop example_model 10 (replicate 441 0) 2 (enumerate 0 example_pair) dia_init =
     Inr \<lparr>all_audio =
            [(Unit 0, [1 / 2, - (1 / 4)]), (Gap 0, replicate 441 0),
             (Unit (Suc 0), [1 / 2, - (1 / 4)])],
          timestamps =
            [\<lparr>ts_sectionId = ''a'', startTime = 0, endTime = 1 / 22050\<rparr>,
             \<lparr>ts_sectionId = ''a'', startTime = 443 / 44100, endTime = 89 / 8820\<rparr>],
          current_time = 89 / 8820, stderr = []\<rparr> \<and>
   \<not> adjacent (Unit 0, [1 / 2, - (1 / 4)]) (Unit (Suc 0), [1 / 2, - (1 / 4)])
       [(Unit 0, [1 / 2, - (1 / 4)]), (Gap 0, replicate 441 0),
        (Unit (Suc 0), [1 / 2, - (1 / 4)])]"
  by (simp add: example_pair_loop)
    (simp add: example_pair_def example_chunk_def np_zeros_def py_int_def dia_sample_rate_def
      example_env_def)


section \<open>Where the timestamp index is written\<close>

lemma all_slashes_iff:
  "(h = replicate (length h) c) \<longleftrightarrow> (\<forall>x\<in>set h. x = c)"
proof
  assume "h = replicate (length h) c"
  then have "set h \<subseteq> {c}" by (metis set_replicate_conv_if empty_subsetI subset_refl)
  then show "\<forall>x\<in>set h. x = c" by auto
next
  assume "\<forall>x\<in>set h. x = c"
  then show "h = replicate (length h) c" by (simp add: replicate_length_same)
qed

lemma dirname_shape:
  "dirname p = [] \<or> (dirname p \<noteq> [] \<and> (\<forall>x\<in>set (dirname p). x = CHR ''/'')) \<or>
   (dirname p \<noteq> [] \<and> last (dirname p) \<noteq> CHR ''/'')"
proof (cases "path_head p \<noteq> [] \<and> path_head p \<noteq> replicate (length (path_head p)) (CHR ''/'')")
  case True
  let ?r = "dropWhile (\<lambda>c. c = CHR ''/'') (rev (path_head p))"
  from True have "\<exists>x\<in>set (rev (path_head p)). x \<noteq> CHR ''/''"
    by (simp add: all_slashes_iff)
  then have ne: "?r \<noteq> []" by (simp add: dropWhile_eq_Nil_conv)
  then have "hd ?r \<noteq> CHR ''/''" using hd_dropWhile [of "\<lambda>c. c = CHR ''/''" "rev (path_head p)"] by simp
  moreover have "dirname p = rev ?r" using True by (simp add: dirname_def rstrip_slash_def Let_def)
  ultimately show ?thesis using ne by (simp add: last_rev)
next
  case False
  then have "dirname p = path_head p" by (auto simp: dirname_def Let_def)
  with False show ?thesis by (auto simp: all_slashes_iff)
qed

lemma dirname_join:
  assumes t: "CHR ''/'' \<notin> set t"
    and d: "d = [] \<or> (d \<noteq> [] \<and> (\<forall>x\<in>set d. x = CHR ''/'')) \<or> (d \<noteq> [] \<and> last d \<noteq> CHR ''/'')"
  shows "dirname (path_join d t) = d \<and> basename (path_join d t) = t"
proof -
  have nt: "\<forall>x\<in>set (rev t). x \<noteq> CHR ''/''" using t by auto
  have hdt: "t \<noteq> [] \<Longrightarrow> hd t \<noteq> CHR ''/''" using t by (cases t) auto
  have dwt: "\<And>ys. dropWhile (\<lambda>c. c \<noteq> CHR ''/'') (rev t @ ys) =
      dropWhile (\<lambda>c. c \<noteq> CHR ''/'') ys"
    using nt by (intro dropWhile_append2) auto
  have twt: "\<And>ys. takeWhile (\<lambda>c. c \<noteq> CHR ''/'') (rev t @ ys) =
      rev t @ takeWhile (\<lambda>c. c \<noteq> CHR ''/'') ys"
    using nt by (intro takeWhile_append2) auto
  consider (empty) "d = []" | (slashes) "d \<noteq> []" "\<forall>x\<in>set d. x = CHR ''/''"
    | (plain) "d \<noteq> []" "last d \<noteq> CHR ''/''"
    using d by blast
  then show ?thesis
  proof cases
    case empty
    have j: "path_join [] t = t" using hdt by (auto simp: path_join_def)
    have "dropWhile (\<lambda>c. c \<noteq> CHR ''/'') (rev t) = []"
      using nt by (simp add: dropWhile_eq_Nil_conv)
    then have a: "dirname t = []" by (simp add: dirname_def path_head_def)
    have tw: "takeWhile (\<lambda>c. c \<noteq> CHR ''/'') (rev t) = rev t"
      using nt by (simp add: takeWhile_eq_all_conv)
    have b: "basename t = t" unfolding basename_def tw by simp
    show ?thesis by (simp add: empty j a b)
  next
    case slashes
    then have l: "last d = CHR ''/''" by simp
    have j: "path_join d t = d @ t" using hdt l slashes(1) by (auto simp: path_join_def)
    have hr: "hd (rev d) = CHR ''/''" using l slashes(1) by (simp add: hd_rev)
    have rd: "rev d \<noteq> []" using slashes(1) by simp
    have dw: "dropWhile (\<lambda>c. c \<noteq> CHR ''/'') (rev d) = rev d"
      using hr rd by (cases "rev d") auto
    have tw: "takeWhile (\<lambda>c. c \<noteq> CHR ''/'') (rev d) = []"
      using hr rd by (cases "rev d") auto
    have h: "path_head (d @ t) = d"
      by (simp add: path_head_def dwt dw)
    have "dirname (d @ t) = d"
      using slashes by (simp add: dirname_def h all_slashes_iff)
    moreover have "basename (d @ t) = t"
      by (simp add: basename_def twt tw)
    ultimately show ?thesis by (simp add: j)
  next
    case plain
    have j: "path_join d t = d @ CHR ''/'' # t" using hdt plain by (auto simp: path_join_def)
    have "path_head (d @ [CHR ''/''] @ t) = d @ [CHR ''/'']"
      by (simp add: path_head_def dwt)
    then have h: "path_head (d @ CHR ''/'' # t) = d @ [CHR ''/'']" by simp
    have ns: "\<exists>x\<in>set d. x \<noteq> CHR ''/''" using plain by (metis last_in_set)
    have hr: "hd (rev d) \<noteq> CHR ''/''" using plain by (simp add: hd_rev)
    have rd: "rev d \<noteq> []" using plain(1) by simp
    have dw: "dropWhile (\<lambda>c. c = CHR ''/'') (rev d) = rev d"
      using hr rd by (cases "rev d") auto
    have a: "dirname (d @ CHR ''/'' # t) = d"
      using ns by (auto simp: dirname_def h all_slashes_iff rstrip_slash_def dw Let_def)
    have "basename (d @ [CHR ''/''] @ t) = t"
      by (simp add: basename_def twt)
    then have b: "basename (d @ CHR ''/'' # t) = t" by simp
    show ?thesis by (simp add: j a b)
  qed
qed

lemma timestamps_path_sibling:
  "dirname (timestamps_path output_path) = dirname output_path \<and>
   basename (timestamps_path output_path) = ''timestamps.json''"
  unfolding timestamps_path_def
  by (rule dirname_join [OF _ dirname_shape]) simp

lemma bark_generate_paths:
  assumes "bark_generate env tts script_data output_path = Completed w err"
  shows "wav_path w = output_path \<and> ts_path w = timestamps_path output_path"
proof -
  from bark_generate_completed [OF assms] obtain pieces records e where
    "save_outputs env SAMPLE_RATE output_path pieces records e = Completed w err"
    by blast
  then show ?thesis
    by (simp add: save_outputs_completed)
qed

lemma dia_generate_paths:
  assumes "dia_generate env tts script_data output_path = Completed w err"
  shows "wav_path w = output_path \<and> ts_path w = timestamps_path output_path"
proof -
  from dia_generate_completed [OF assms] obtain pieces records e where
    "save_outputs env dia_sample_rate output_path pieces records e = Completed w err"
    by blast
  then show ?thesis
    by (simp add: save_outputs_completed)
qed

text \<open>
  C8. Every run of either script that writes its files writes the timestamp index to the
  path \<open>os.path.join(os.path.dirname(output_path), "timestamps.json")\<close>: a file whose
  name is exactly \<open>timestamps.json\<close> and whose directory is the directory of the output
  WAV path, whatever the name or extension of the WAV file.
\<close>

theorem timestamps_file_is_sibling:
  "(bark_generate env tts script_data output_path = Completed w err \<longrightarrow>
      wav_path w = output_path \<and>
      ts_path w = path_join (dirname output_path) ''timestamps.json'' \<and>
      dirname (ts_path w) = dirname output_path \<and>
      basename (ts_path w) = ''timestamps.json'') \<and>
   (dia_generate env' model script_data' output_path' = Completed w' err' \<longrightarrow>
      wav_path w' = output_path' \<and>
      ts_path w' = path_join (dirname output_path') ''timestamps.json'' \<and>
      dirname (ts_path w') = dirname output_path' \<and>
      basename (ts_path w') = ''timestamps.json'')"
proof -
  have a: "bark_generate env tts script_data output_path = Completed w err \<longrightarrow>
      wav_path w = output_path \<and>
      ts_path w = path_join (dirname output_path) ''timestamps.json'' \<and>
      dirname (ts_path w) = dirname output_path \<and>
      basename (ts_path w) = ''timestamps.json''"
    using bark_generate_paths [of env tts script_data output_path w err]
      timestamps_path_sibling [of output_path]
    by (auto simp: timestamps_path_def)
  have b: "dia_generate env' model script_data' output_path' = Completed w' err' \<longrightarrow>
      wav_path w' = output_path' \<and>
      ts_path w' = path_join (dirname output_path') ''timestamps.json'' \<and>
      dirname (ts_path w') = dirname output_path' \<and>
      basename (ts_path w') = ''timestamps.json''"
    using dia_generate_paths [of env' model script_data' output_path' w' err']
      timestamps_path_sibling [of output_path']
    by (auto simp: timestamps_path_def)
  from a b show ?thesis by blast
qed

theorem timestamps_file_is_sibling_witness:
  "bark_generate example_env example_voice example_script ''out/a.wav'' =
     Completed example_bark_files
       [BarkWarnFailed (Suc (Suc 0)) ''b'' ''model error'', Summary] \<and>
   dia_generate example_env example_model example_dia_script ''out/a.wav'' =
     Completed example_dia_files [DiaWarnFailed ''b'' ''model error'', Summary] \<and>
   ts_path example_bark_files = ''out/timestamps.json'' \<and>
   dirname (ts_path example_bark_files) = dirname ''out/a.wav'' \<and>
   basename (ts_path example_bark_files) = ''timestamps.json'' \<and>
   ts_path example_dia_files = ''out/timestamps.json'' \<and>
   dirname (ts_path example_dia_files) = dirname ''out/a.wav'' \<and>
   basename (ts_path example_dia_files) = ''timestamps.json''"
proof -
  have p: "ts_path example_bark_files = ''out/timestamps.json''"
    "ts_path example_dia_files = ''out/timestamps.json''"
    by (simp_all add: example_bark_files_def example_dia_files_def)
  show ?thesis
    using timestamps_file_is_sibling
      [where env = example_env and tts = example_voice and script_data = example_script
         and output_path = "''out/a.wav''" and w = example_bark_files
         and err = "[BarkWarnFailed (Suc (Suc 0)) ''b'' ''model error'', Summary]"
         and env' = example_env and model = example_model
         and script_data' = example_dia_script and output_path' = "''out/a.wav''"
         and w' = example_dia_files
         and err' = "[DiaWarnFailed ''b'' ''model error'', Summary]"]
      example_bark_completed example_dia_completed p
    by blast
qed


section \<open>Peak normalisation\<close>











section \<open>Missing keys\<close>

lemma py_int_nonneg: "0 \<le> q \<Longrightarrow> 0 \<le> py_int q"
  by (simp add: py_int_def)

lemma dia_step_no_section:
  "chunk_sectionId chunk = None \<Longrightarrow>
   dia_step tts gap_ms sg n i chunk st = Inl (KeyError ''sectionId'')"
  by (simp add: dia_step_def)

lemma dia_step_no_text:
  "chunk_sectionId chunk \<noteq> None \<Longrightarrow> chunk_text chunk = None \<Longrightarrow>
   dia_step tts gap_ms sg n i chunk st = Inl (KeyError ''text'')"
  by (auto simp: dia_step_def)

lemma dia_step_complete:
  "chunk_sectionId chunk \<noteq> None \<Longrightarrow> chunk_text chunk \<noteq> None \<Longrightarrow>
   \<exists>st'. dia_step tts gap_ms sg n i chunk st = Inr st'"
  by (auto simp: dia_step_def Let_def split: synth.splits option.splits)

lemma dia_loop_missing_key:
  "\<exists>p\<in>set xs. chunk_sectionId (snd p) = None \<or> chunk_text (snd p) = None \<Longrightarrow>
   \<exists>k err. dia_loop tts gap_ms sg n xs st = Inl (KeyError k, err)"
proof (induction xs arbitrary: st)
  case Nil
  then show ?case by simp
next
  case (Cons x xs)
  obtain i chunk where x: "x = (i, chunk)" by (cases x)
  show ?case
  proof (cases "chunk_sectionId chunk = None \<or> chunk_text chunk = None")
    case True
    then have "\<exists>k. dia_step tts gap_ms sg n i chunk st = Inl (KeyError k)"
      using dia_step_no_section [of chunk tts gap_ms sg n i st]
        dia_step_no_text [of chunk tts gap_ms sg n i st] by blast
    then show ?thesis by (auto simp: x)
  next
    case False
    then obtain st' where s: "dia_step tts gap_ms sg n i chunk st = Inr st'"
      using dia_step_complete [of chunk tts gap_ms sg n i st] by blast
    from False Cons.prems
    have "\<exists>p\<in>set xs. chunk_sectionId (snd p) = None \<or> chunk_text (snd p) = None"
      by (auto simp: x)
    from Cons.IH [OF this, of st'] show ?thesis by (simp add: x s)
  qed
qed

lemma dia_generate_missing_key:
  assumes "starts env"
    and "np_zeros (capacity env)
       (py_int (of_nat dia_sample_rate * get_or 300 (dia_gapMs script_data) / 1000)) = Inr sg"
    and "\<exists>c\<in>set (get_or [] (dia_chunks script_data)).
           chunk_sectionId c = None \<or> chunk_text c = None"
  shows "\<exists>k err. dia_generate env tts script_data output_path =
           Aborted (Uncaught (KeyError k)) [] err"
proof -
  let ?chunks = "get_or [] (dia_chunks script_data)"
  let ?gap_ms = "get_or 300 (dia_gapMs script_data)"
  from assms(3) obtain c where c: "c \<in> set (map snd (enumerate 0 ?chunks))"
    "chunk_sectionId c = None \<or> chunk_text c = None"
    by auto
  then have "\<exists>p\<in>set (enumerate 0 ?chunks).
      chunk_sectionId (snd p) = None \<or> chunk_text (snd p) = None"
    unfolding set_map by blast
  then obtain k err where
    "dia_loop tts ?gap_ms sg (length ?chunks) (enumerate 0 ?chunks) dia_init =
       Inl (KeyError k, err)"
    using dia_loop_missing_key by blast
  then have "dia_generate env tts script_data output_path =
      Aborted (Uncaught (KeyError k)) [] err"
    by (simp add: dia_generate_starts [OF assms(1) assms(2)])
  then show ?thesis by blast
qed






lemma example_no_text_run:
  "dia_generate example_env example_model example_no_text ''out/a.wav'' =
     Aborted (Uncaught (KeyError ''text'')) [] []"
  by (simp add: example_no_text_def dia_eval run_eval)





section \<open>Failed units and empty runs\<close>

lemma lower_pause: "lower ''pause'' = ''pause''"
  by code_simp

lemma pause_keeps_text:
  "is_pause direction \<Longrightarrow> process_text txt direction = txt"
  by (auto simp: is_pause_def process_text_def emotion_get_cases Let_def split: option.splits)

lemma track_section_stderr [simp]:
  "stderr (track_section gap_ms sg i s st) = stderr st"
  by (auto simp: track_section_def Let_def split: option.splits)

lemma bark_step_raises:
  assumes "\<not> blank (process_text (get_or [] (seg_text seg)) (seg_direction seg))"
    and "tts i (process_text (get_or [] (seg_text seg)) (seg_direction seg))
           (get_or ''v2/en_speaker_0'' (seg_speakerPreset seg)) = Raises e"
  shows "bark_step tts gap_ms sg i seg st =
     (track_section gap_ms sg i (seg_section seg) st)
       \<lparr>stderr := stderr st @ [BarkWarnFailed i (seg_section seg) e]\<rparr>"
proof -
  let ?txt = "get_or [] (seg_text seg)"
  let ?dir = "seg_direction seg"
  have nb: "is_pause ?dir \<Longrightarrow> \<not> blank ?txt"
    using assms(1) by (simp add: pause_keeps_text)
  have "bark_audio tts i (get_or ''v2/en_speaker_0'' (seg_speakerPreset seg)) ?txt
      (process_text ?txt ?dir) ?dir = Inl e"
    using assms(2) nb by (simp add: bark_audio_def)
  then show ?thesis
    using assms(1) by (simp add: bark_step_def seg_section_def Let_def)
qed

lemma dia_step_raises:
  assumes "chunk_sectionId chunk = Some s" "chunk_text chunk = Some txt"
    and "tts i txt = Raises e"
  shows "dia_step tts gap_ms sg n i chunk st =
     Inr (st\<lparr>stderr := stderr st @ [DiaWarnFailed s e]\<rparr>)"
  using assms by (simp add: dia_step_def)



lemma bark_generate_no_audio:
  assumes "starts env"
    and "np_zeros (capacity env)
       (py_int (of_nat SAMPLE_RATE * get_or 400 (bark_gapMs script_data) / 1000)) = Inr sg"
  shows "(\<exists>files err. bark_generate env tts script_data output_path =
            Aborted NoAudio files err) \<longleftrightarrow>
     all_audio (bark_loop tts (get_or 400 (bark_gapMs script_data)) sg
        (enumerate 0 (get_or [] (bark_segments script_data))) bark_init) = []"
    and "all_audio (bark_loop tts (get_or 400 (bark_gapMs script_data)) sg
        (enumerate 0 (get_or [] (bark_segments script_data))) bark_init) = [] \<longrightarrow>
     bark_generate env tts script_data output_path =
       Aborted NoAudio []
         (stderr (bark_loop tts (get_or 400 (bark_gapMs script_data)) sg
            (enumerate 0 (get_or [] (bark_segments script_data))) bark_init) @
          [ErrorNoAudio])"
  unfolding bark_generate_starts [OF assms]
  by (auto simp: save_outputs_def split: sum.splits option.splits)

lemma dia_generate_no_audio:
  assumes "starts env"
    and "np_zeros (capacity env)
       (py_int (of_nat dia_sample_rate * get_or 300 (dia_gapMs script_data) / 1000)) = Inr sg"
    and "dia_loop tts (get_or 300 (dia_gapMs script_data)) sg
           (length (get_or [] (dia_chunks script_data)))
           (enumerate 0 (get_or [] (dia_chunks script_data))) dia_init = Inr st"
  shows "(\<exists>files err. dia_generate env tts script_data output_path =
            Aborted NoAudio files err) \<longleftrightarrow> all_audio st = []"
    and "all_audio st = [] \<longrightarrow>
     dia_generate env tts script_data output_path =
       Aborted NoAudio [] (stderr st @ [ErrorNoAudio])"
  unfolding dia_generate_starts [OF assms(1) assms(2)] assms(3)
  by (auto simp: save_outputs_def split: sum.splits option.splits)

lemma example_raise_step:
  "bark_step example_voice 1 (replicate 24 0) 2 (example_segment ''b'' ''boom'') bark_init =
     \<lparr>all_audio = [], timestamps = [], current_time = 0,
      stderr = [BarkWarnFailed 2 ''b'' ''model error''],
      current_section_id = Some ''b'', section_start_time = 0\<rparr>"
  by (simp add: bark_eval run_eval)

lemma example_strict_run:
  "dia_generate example_strict_env example_model example_pair_script ''out/a.xyz'' =
     Aborted (Uncaught (OtherError ''TypeError'')) [] []"
  by (simp add: dia_eval run_eval example_pair_def example_pair_script_def
      example_strict_env_def)

text \<open>
  C4, as the code has it. In both scripts a unit whose synthesis raises an exception
  leaves one warning line on stderr and nothing else, and the loop goes on with the next
  unit; no failure of the speech model ends the run. In a run that reaches the end of the
  loop, the run leaves through \<open>sys.exit(1)\<close> after \<open>ERROR: No audio was generated\<close>,
  with no file written, exactly when the accumulated audio list is empty. In
  generate\_dia.py a chunk that lacks \<open>sectionId\<close> or \<open>text\<close> ends the run with an
  uncaught KeyError, with no file written, whatever the list holds by then.
\<close>

theorem failed_units_are_skipped:
  "(\<not> blank (process_text (get_or [] (seg_text seg)) (seg_direction seg)) \<and>
    tts i (process_text (get_or [] (seg_text seg)) (seg_direction seg))
      (get_or ''v2/en_speaker_0'' (seg_speakerPreset seg)) = Raises e \<longrightarrow>
      bark_loop tts gap_ms sg ((i, seg) # rest) st =
        bark_loop tts gap_ms sg rest
          ((track_section gap_ms sg i (seg_section seg) st)
             \<lparr>stderr := stderr st @ [BarkWarnFailed i (seg_section seg) e]\<rparr>)) \<and>
   (chunk_sectionId chunk = Some s \<and> chunk_text chunk = Some utterance \<and>
    model i' utterance = Raises e' \<longrightarrow>
      dia_loop model gap_ms' sg' n ((i', chunk) # rest') dst =
        dia_loop model gap_ms' sg' n rest'
          (dst\<lparr>stderr := stderr dst @ [DiaWarnFailed s e']\<rparr>)) \<and>
   (starts env \<and>
    np_zeros (capacity env)
      (py_int (of_nat SAMPLE_RATE * get_or 400 (bark_gapMs bark_data) / 1000)) = Inr gap \<longrightarrow>
      ((\<exists>files err. bark_generate env tts bark_data output_path =
          Aborted NoAudio files err) \<longleftrightarrow>
       all_audio (bark_loop tts (get_or 400 (bark_gapMs bark_data)) gap
         (enumerate 0 (get_or [] (bark_segments bark_data))) bark_init) = []) \<and>
      (all_audio (bark_loop tts (get_or 400 (bark_gapMs bark_data)) gap
         (enumerate 0 (get_or [] (bark_segments bark_data))) bark_init) = [] \<longrightarrow>
       bark_generate env tts bark_data output_path =
         Aborted NoAudio []
           (stderr (bark_loop tts (get_or 400 (bark_gapMs bark_data)) gap
              (enumerate 0 (get_or [] (bark_segments bark_data))) bark_init) @
            [ErrorNoAudio]))) \<and>
   (starts env' \<and>
    np_zeros (capacity env')
      (py_int (of_nat dia_sample_rate * get_or 300 (dia_gapMs dia_data) / 1000)) =
      Inr gap' \<and>
    dia_loop model (get_or 300 (dia_gapMs dia_data)) gap'
      (length (get_or [] (dia_chunks dia_data)))
      (enumerate 0 (get_or [] (dia_chunks dia_data))) dia_init = Inr final \<longrightarrow>
      ((\<exists>files err. dia_generate env' model dia_data output_path' =
          Aborted NoAudio files err) \<longleftrightarrow> all_audio final = []) \<and>
      (all_audio final = [] \<longrightarrow>
         dia_generate env' model dia_data output_path' =
           Aborted NoAudio [] (stderr final @ [ErrorNoAudio]))) \<and>
   (starts env' \<and>
    np_zeros (capacity env')
      (py_int (of_nat dia_sample_rate * get_or 300 (dia_gapMs dia_data) / 1000)) =
      Inr gap' \<and>
    (\<exists>c\<in>set (get_or [] (dia_chunks dia_data)).
       chunk_sectionId c = None \<or> chunk_text c = None) \<longrightarrow>
      (\<exists>k err. dia_generate env' model dia_data output_path' =
         Aborted (Uncaught (KeyError k)) [] err))"
proof -
  have a: "\<not> blank (process_text (get_or [] (seg_text seg)) (seg_direction seg)) \<and>
    tts i (process_text (get_or [] (seg_text seg)) (seg_direction seg))
      (get_or ''v2/en_speaker_0'' (seg_speakerPreset seg)) = Raises e \<longrightarrow>
      bark_loop tts gap_ms sg ((i, seg) # rest) st =
        bark_loop tts gap_ms sg rest
          ((track_section gap_ms sg i (seg_section seg) st)
             \<lparr>stderr := stderr st @ [BarkWarnFailed i (seg_section seg) e]\<rparr>)"
    using bark_step_raises [of seg tts i e gap_ms sg st] by simp
  have b: "chunk_sectionId chunk = Some s \<and> chunk_text chunk = Some utterance \<and>
    model i' utterance = Raises e' \<longrightarrow>
      dia_loop model gap_ms' sg' n ((i', chunk) # rest') dst =
        dia_loop model gap_ms' sg' n rest'
          (dst\<lparr>stderr := stderr dst @ [DiaWarnFailed s e']\<rparr>)"
    using dia_step_raises [of "chunk" "s" "utterance" "model" "i'" "e'" "gap_ms'" "sg'" "n" "dst"]
    by simp
  have c: "starts env \<and>
    np_zeros (capacity env)
      (py_int (of_nat SAMPLE_RATE * get_or 400 (bark_gapMs bark_data) / 1000)) = Inr gap \<longrightarrow>
      ((\<exists>files err. bark_generate env tts bark_data output_path =
          Aborted NoAudio files err) \<longleftrightarrow>
       all_audio (bark_loop tts (get_or 400 (bark_gapMs bark_data)) gap
         (enumerate 0 (get_or [] (bark_segments bark_data))) bark_init) = []) \<and>
      (all_audio (bark_loop tts (get_or 400 (bark_gapMs bark_data)) gap
         (enumerate 0 (get_or [] (bark_segments bark_data))) bark_init) = [] \<longrightarrow>
       bark_generate env tts bark_data output_path =
         Aborted NoAudio []
           (stderr (bark_loop tts (get_or 400 (bark_gapMs bark_data)) gap
              (enumerate 0 (get_or [] (bark_segments bark_data))) bark_init) @
            [ErrorNoAudio]))"
    using bark_generate_no_audio [of env bark_data gap tts output_path] by blast
  have d: "starts env' \<and>
    np_zeros (capacity env')
      (py_int (of_nat dia_sample_rate * get_or 300 (dia_gapMs dia_data) / 1000)) =
      Inr gap' \<and>
    dia_loop model (get_or 300 (dia_gapMs dia_data)) gap'
      (length (get_or [] (dia_chunks dia_data)))
      (enumerate 0 (get_or [] (dia_chunks dia_data))) dia_init = Inr final \<longrightarrow>
      ((\<exists>files err. dia_generate env' model dia_data output_path' =
          Aborted NoAudio files err) \<longleftrightarrow> all_audio final = []) \<and>
      (all_audio final = [] \<longrightarrow>
         dia_generate env' model dia_data output_path' =
           Aborted NoAudio [] (stderr final @ [ErrorNoAudio]))"
    using dia_generate_no_audio [of env' dia_data gap' model final output_path'] by blast
  have k: "starts env' \<and>
    np_zeros (capacity env')
      (py_int (of_nat dia_sample_rate * get_or 300 (dia_gapMs dia_data) / 1000)) =
      Inr gap' \<and>
    (\<exists>c\<in>set (get_or [] (dia_chunks dia_data)).
       chunk_sectionId c = None \<or> chunk_text c = None) \<longrightarrow>
      (\<exists>k err. dia_generate env' model dia_data output_path' =
         Aborted (Uncaught (KeyError k)) [] err)"
    using dia_generate_missing_key [of env' dia_data gap' model output_path'] by blast
  from a b c d k show ?thesis by blast
qed

lemma length_example_chunks: "length example_chunks = 4"
  by (simp add: example_chunks_def)

lemma example_failing_run:
  "bark_generate example_env example_voice example_failing_script ''out/a.wav'' =
     Aborted NoAudio [] [BarkWarnFailed 0 ''b'' ''model error'', ErrorNoAudio]"
  by (simp add: example_failing_script_def bark_eval run_eval)

lemma example_silent_dia_run:
  "dia_generate example_env example_model
       \<lparr>dia_chunks = Some [example_chunk ''b'' ''boom''], dia_gapMs = Some 10\<rparr> ''out/a.wav'' =
     Aborted NoAudio [] [DiaWarnFailed ''b'' ''model error'', ErrorNoAudio]"
  by (simp add: dia_eval run_eval)

theorem failed_units_are_skipped_witness:
  "\<not> blank (process_text (get_or [] (seg_text (example_segment ''b'' ''boom'')))
            (seg_direction (example_segment ''b'' ''boom''))) \<and>
   example_voice 2
     (process_text (get_or [] (seg_text (example_segment ''b'' ''boom'')))
        (seg_direction (example_segment ''b'' ''boom'')))
     (get_or ''v2/en_speaker_0'' (seg_speakerPreset (example_segment ''b'' ''boom''))) =
     Raises ''model error'' \<and>
   bark_loop example_voice 1 (replicate 24 0)
       [(2, example_segment ''b'' ''boom''), (3, example_segment ''c'' ''x'')] bark_init =
     bark_loop example_voice 1 (replicate 24 0) [(3, example_segment ''c'' ''x'')]
       \<lparr>all_audio = [], timestamps = [], current_time = 0,
        stderr = [BarkWarnFailed 2 ''b'' ''model error''],
        current_section_id = Some ''b'', section_start_time = 0\<rparr> \<and>
   chunk_sectionId (example_chunk ''b'' ''boom'') = Some ''b'' \<and>
   chunk_text (example_chunk ''b'' ''boom'') = Some ''boom'' \<and>
   example_model 2 ''boom'' = Raises ''model error'' \<and>
   dia_loop example_model 10 (replicate 441 0) 4
       [(2, example_chunk ''b'' ''boom''), (3, example_chunk ''c'' ''x'')] dia_init =
     dia_loop example_model 10 (replicate 441 0) 4 [(3, example_chunk ''c'' ''x'')]
       \<lparr>all_audio = [], timestamps = [], current_time = 0,
        stderr = [DiaWarnFailed ''b'' ''model error'']\<rparr> \<and>
   starts example_env \<and>
   np_zeros (capacity example_env)
       (py_int (of_nat SAMPLE_RATE * get_or 400 (bark_gapMs example_failing_script) / 1000)) =
     Inr (replicate 24 0) \<and>
   all_audio (bark_loop example_voice (get_or 400 (bark_gapMs example_failing_script))
     (replicate 24 0)
     (enumerate 0 (get_or [] (bark_segments example_failing_script))) bark_init) = [] \<and>
   bark_generate example_env example_voice example_failing_script ''out/a.wav'' =
     Aborted NoAudio [] [BarkWarnFailed 0 ''b'' ''model error'', ErrorNoAudio] \<and>
   np_zeros (capacity example_env)
       (py_int (of_nat dia_sample_rate *
          get_or 300 (dia_gapMs
            \<lparr>dia_chunks = Some [example_chunk ''b'' ''boom''], dia_gapMs = Some 10\<rparr>) / 1000)) =
     Inr (replicate 441 0) \<and>
   dia_loop example_model 10 (replicate 441 0) 1
       (enumerate 0 [example_chunk ''b'' ''boom'']) dia_init =
     Inr \<lparr>all_audio = [], timestamps = [], current_time = 0,
          stderr = [DiaWarnFailed ''b'' ''model error'']\<rparr> \<and>
   dia_generate example_env example_model
       \<lparr>dia_chunks = Some [example_chunk ''b'' ''boom''], dia_gapMs = Some 10\<rparr> ''out/a.wav'' =
     Aborted NoAudio [] [DiaWarnFailed ''b'' ''model error'', ErrorNoAudio] \<and>
   np_zeros (capacity example_env)
       (py_int (of_nat dia_sample_rate * get_or 300 (dia_gapMs example_no_text) / 1000)) =
     Inr (replicate 441 0) \<and>
   (\<exists>c\<in>set (get_or [] (dia_chunks example_no_text)).
      chunk_sectionId c = None \<or> chunk_text c = None) \<and>
   dia_generate example_env example_model example_no_text ''out/a.wav'' =
     Aborted (Uncaught (KeyError ''text'')) [] []"
proof -
  let ?quiet = "\<lparr>dia_chunks = Some [example_chunk ''b'' ''boom''], dia_gapMs = Some 10\<rparr>"
  let ?final = "\<lparr>all_audio = [], timestamps = [], current_time = 0,
          stderr = [DiaWarnFailed ''b'' ''model error'']\<rparr>"
  have h1: "\<not> blank (process_text (get_or [] (seg_text (example_segment ''b'' ''boom'')))
            (seg_direction (example_segment ''b'' ''boom'')))"
    "example_voice 2
     (process_text (get_or [] (seg_text (example_segment ''b'' ''boom'')))
        (seg_direction (example_segment ''b'' ''boom'')))
     (get_or ''v2/en_speaker_0'' (seg_speakerPreset (example_segment ''b'' ''boom''))) =
     Raises ''model error''"
    by (simp_all add: bark_eval run_eval)
  have t: "(track_section 1 (replicate 24 0) 2 (seg_section (example_segment ''b'' ''boom''))
        bark_init) \<lparr>stderr := stderr bark_init @
          [BarkWarnFailed 2 (seg_section (example_segment ''b'' ''boom'')) ''model error'']\<rparr> =
      \<lparr>all_audio = [], timestamps = [], current_time = 0,
        stderr = [BarkWarnFailed 2 ''b'' ''model error''],
        current_section_id = Some ''b'', section_start_time = 0\<rparr>"
    by (simp add: seg_section_def bark_eval run_eval)
  have h2: "chunk_sectionId (example_chunk ''b'' ''boom'') = Some ''b''"
    "chunk_text (example_chunk ''b'' ''boom'') = Some ''boom''"
    "example_model 2 ''boom'' = Raises ''model error''"
    by (simp_all add: dia_eval)
  have d: "dia_init\<lparr>stderr := stderr dia_init @ [DiaWarnFailed ''b'' ''model error'']\<rparr> =
      \<lparr>all_audio = [], timestamps = [], current_time = 0,
        stderr = [DiaWarnFailed ''b'' ''model error'']\<rparr>"
    by (simp add: dia_init_def)
  have g: "get_or 400 (bark_gapMs example_failing_script) = 1"
    "get_or [] (bark_segments example_failing_script) = [example_segment ''b'' ''boom'']"
    "get_or 300 (dia_gapMs ?quiet) = 10"
    "get_or [] (dia_chunks ?quiet) = [example_chunk ''b'' ''boom'']"
    "get_or 300 (dia_gapMs example_no_text) = 10"
    by (simp_all add: get_or_def example_failing_script_def example_no_text_def)
  have m: "\<exists>c\<in>set (get_or [] (dia_chunks example_no_text)).
      chunk_sectionId c = None \<or> chunk_text c = None"
    by (simp add: example_no_text_def get_or_def)
  have e: "all_audio (bark_loop example_voice 1 (replicate 24 0)
     (enumerate 0 [example_segment ''b'' ''boom'']) bark_init) = []"
    by (simp add: bark_eval run_eval)
  have l: "dia_loop example_model 10 (replicate 441 0) 1
       (enumerate 0 [example_chunk ''b'' ''boom'']) dia_init = Inr ?final"
    by (simp add: dia_eval run_eval)
  show ?thesis
    using failed_units_are_skipped
      [where seg = "example_segment ''b'' ''boom''" and tts = example_voice and i = 2
         and e = "''model error''" and gap_ms = 1 and sg = "replicate 24 0"
         and rest = "[(3, example_segment ''c'' ''x'')]" and st = bark_init
         and chunk = "example_chunk ''b'' ''boom''" and s = "''b''" and utterance = "''boom''"
         and model = example_model and i' = 2 and e' = "''model error''" and gap_ms' = 10
         and sg' = "replicate 441 0" and n = 4
         and rest' = "[(3, example_chunk ''c'' ''x'')]" and dst = dia_init
         and env = example_env and bark_data = example_failing_script
         and gap = "replicate 24 0" and output_path = "''out/a.wav''"
         and env' = example_env and dia_data = ?quiet
         and gap' = "replicate 441 0" and final = ?final and output_path' = "''out/a.wav''"]
      failed_units_are_skipped
      [where seg = "example_segment ''b'' ''boom''" and tts = example_voice and i = 2
         and e = "''model error''" and gap_ms = 1 and sg = "replicate 24 0"
         and rest = "[(3, example_segment ''c'' ''x'')]" and st = bark_init
         and chunk = "example_chunk ''b'' ''boom''" and s = "''b''" and utterance = "''boom''"
         and model = example_model and i' = 2 and e' = "''model error''" and gap_ms' = 10
         and sg' = "replicate 441 0" and n = 4
         and rest' = "[(3, example_chunk ''c'' ''x'')]" and dst = dia_init
         and env = example_env and bark_data = example_failing_script
         and gap = "replicate 24 0" and output_path = "''out/a.wav''"
         and env' = example_env and dia_data = example_no_text
         and gap' = "replicate 441 0" and final = ?final and output_path' = "''out/a.wav''"]
      h1 h2 example_failing_run example_silent_dia_run example_no_text_run
      example_env_starts m
    unfolding g t d
    using example_gap_buffers e l by simp
qed

theorem abort_with_audio_counterexample:
  "dia_step example_model 10 (replicate 441 0) 2 0 (example_chunk ''a'' ''hi'') dia_init =
     Inr \<lparr>all_audio = [(Unit 0, [1 / 2, - (1 / 4)]), (Gap 0, replicate 441 0)],
          timestamps = [\<lparr>ts_sectionId = ''a'', startTime = 0, endTime = 1 / 22050\<rparr>],
          current_time = 443 / 44100, stderr = []\<rparr> \<and>
   dia_generate example_env example_model example_no_text ''out/a.wav'' =
     Aborted (Uncaught (KeyError ''text'')) [] [] \<and>
   exit_code (dia_generate example_env example_model example_no_text ''out/a.wav'') = 1 \<and>
   files_written (dia_generate example_env example_model example_no_text ''out/a.wav'') = [] \<and>
   dia_loop example_model 10 (replicate 441 0) 2 (enumerate 0 example_pair) dia_init =
     Inr \<lparr>all_audio =
            [(Unit 0, [1 / 2, - (1 / 4)]), (Gap 0, replicate 441 0),
             (Unit (Suc 0), [1 / 2, - (1 / 4)])],
          timestamps =
            [\<lparr>ts_sectionId = ''a'', startTime = 0, endTime = 1 / 22050\<rparr>,
             \<lparr>ts_sectionId = ''a'', startTime = 443 / 44100, endTime = 89 / 8820\<rparr>],
          current_time = 89 / 8820, stderr = []\<rparr> \<and>
   dia_generate example_strict_env example_model example_pair_script ''out/a.xyz'' =
     Aborted (Uncaught (OtherError ''TypeError'')) [] [] \<and>
   exit_code (dia_generate example_strict_env example_model example_pair_script ''out/a.xyz'') =
     1 \<and>
   files_written
     (dia_generate example_strict_env example_model example_pair_script ''out/a.xyz'') = []"
  by (simp add: example_no_text_run example_strict_run example_pair_loop)
    (simp add: dia_eval run_eval)


section \<open>Exit codes\<close>





lemma bark_empty_gap_crash:
  "bark_loop example_voice 0 [] (enumerate 0 (get_or [] (bark_segments example_silent_script)))
       bark_init =
     \<lparr>all_audio = [(Gap (Suc 0), [])],
      timestamps = [\<lparr>ts_sectionId = ''a'', startTime = 0, endTime = 0\<rparr>],
      current_time = 0, stderr = [],
      current_section_id = Some ''b'', section_start_time = 0\<rparr> \<and>
   bark_generate example_env example_voice example_silent_script ''out/a.wav'' =
     Aborted (Uncaught ValueError) [] []"
  by (simp add: example_silent_script_def bark_eval run_eval)


lemma example_bare_runs:
  "bark_generate example_bare_env example_voice example_script ''out/a.wav'' =
     Aborted MissingPackage [] [ErrorMissingPackage]"
  "dia_generate example_bare_env example_model example_dia_script ''out/a.wav'' =
     Aborted MissingPackage [] [ErrorMissingPackage]"
  by (simp_all add: bark_generate_def dia_generate_def before_loop_def example_bare_env_def
      example_env_def)





section \<open>The pause direction\<close>

lemma pause_samples_value: "pause_samples = 12000"
  by (simp add: pause_samples_def SAMPLE_RATE_def py_int_def)

lemma pause_silence_before_text:
  assumes "is_pause direction" "\<not> blank t"
    and "tts i (process_text t direction) preset = Returns (Some text_audio)"
  shows "bark_audio tts i preset t (process_text t direction) direction =
     Inr (Some (replicate pause_samples 0 @ text_audio))"
  using assms by (simp add: bark_audio_def)

lemma pause_blank_text:
  assumes "is_pause (seg_direction seg)" "blank (get_or [] (seg_text seg))"
  shows "bark_step tts gap_ms sg i seg st = track_section gap_ms sg i (seg_section seg) st"
  using assms by (simp add: bark_step_def pause_keeps_text seg_section_def Let_def)

text \<open>
  C6 at the input where the code departs from it: a segment whose direction is \<open>pause\<close> and
  whose text is blank. The blank test on the processed text comes first and skips the
  segment, so the 500 ms of silence are never appended: the step leaves \<open>all_audio\<close>
  empty and the time at zero, and a script made of this one segment ends with no audio.
  (With text that is not blank, the silence does precede the audio of the text; see
  \<open>pause_silence_before_text\<close>.)
\<close>

theorem pause_with_blank_text_is_skipped:
  "is_pause (seg_direction example_pause) \<and>
   blank (get_or [] (seg_text example_pause)) \<and>
   bark_step example_voice 400 (replicate 9600 0) 0 example_pause bark_init =
     \<lparr>all_audio = [], timestamps = [], current_time = 0, stderr = [],
      current_section_id = Some ''s'', section_start_time = 0\<rparr> \<and>
   bark_generate example_env example_voice example_pause_script ''out/a.wav'' =
     Aborted NoAudio [] [ErrorNoAudio]"
proof -
  have p: "is_pause (seg_direction example_pause)"
    by (simp add: example_pause_def is_pause_def lower_pause)
  have b: "blank (get_or [] (seg_text example_pause))"
    by (simp add: example_pause_def get_or_def blank_def isspace_def)
  have t: "track_section gap_ms sg 0 (seg_section example_pause) bark_init =
     \<lparr>all_audio = [], timestamps = [], current_time = 0, stderr = [],
      current_section_id = Some ''s'', section_start_time = 0\<rparr>" for gap_ms sg
    by (simp add: track_section_def bark_init_def seg_section_def example_pause_def get_or_def)
  have s: "bark_step example_voice gap_ms sg 0 example_pause bark_init =
     \<lparr>all_audio = [], timestamps = [], current_time = 0, stderr = [],
      current_section_id = Some ''s'', section_start_time = 0\<rparr>" for gap_ms sg
    using pause_blank_text [OF p b] by (simp add: t)
  have g: "bark_generate example_env example_voice example_pause_script ''out/a.wav'' =
     Aborted NoAudio [] [ErrorNoAudio]"
    by (simp add: bark_generate_def example_pause_script_def get_or_def np_zeros_def py_int_def
        SAMPLE_RATE_def s close_section_def before_loop_def save_outputs_def example_env_def)
  from p b s g show ?thesis by simp
qed


end
